theory Spec2Isabelle
  imports Main
begin

section \<open>Batch inference pipeline (inference.py)\<close>

text \<open>
  The script moves a CSV file from an S3-compatible object store to a local staging
  path, runs a model over it and uploads the predictions. Everything it does is an
  effect on the outside world, so the embedding is a state-and-exception monad:
  \<^item> the local file system and the chronological list of external effects (client
    construction, requests, prints) form the mutable \<open>state\<close>;
  \<^item> the answers of the outside world (boto3, pandas, mlflow, the process environment)
    are the fields of an immutable record \<open>env\<close>, one field per library call;
  \<^item> a Python exception is a value of type \<open>exn\<close>; a function that may raise returns
    \<open>exn + 'a\<close>, with \<open>Inl\<close> for the raised exception.
\<close>

subsection \<open>Python values\<close>

text \<open>
  Only subclasses of \<open>Exception\<close> are modelled: these are what \<open>except Exception\<close>
  catches. \<open>ClientError code text\<close> carries \<open>e.response["Error"]["Code"]\<close> and the
  rendering \<open>str(e)\<close>; the other constructors carry \<open>str(e)\<close>, which for a \<open>KeyError\<close>
  is the \<open>repr\<close> of the key. The constructor \<open>Exception\<close> stands for every other
  exception class.
\<close>

datatype exn =
    NoCredentialsError string
  | ClientError string string
  | NameError string
  | TypeError string
  | KeyError string
  | ValueError string
  | Exception string

text \<open>Strings are byte strings: a code point outside ASCII is its UTF-8 bytes.\<close>

definition apostrophe :: char where
  "apostrophe = CHR 0x27"

definition cross_mark :: string where
  "cross_mark = [CHR 0xE2, CHR 0x9D, CHR 0x8C]"

definition check_mark :: string where
  "check_mark = [CHR 0xE2, CHR 0x9C, CHR 0x85]"

definition file_folder :: string where
  "file_folder = [CHR 0xF0, CHR 0x9F, CHR 0x93, CHR 0x81]"

definition quoted :: "string \<Rightarrow> string" where
  "quoted s = apostrophe # s @ [apostrophe]"

fun str_exn :: "exn \<Rightarrow> string" where
  "str_exn (NoCredentialsError m) = m"
| "str_exn (ClientError c m) = m"
| "str_exn (NameError m) = m"
| "str_exn (TypeError m) = m"
| "str_exn (KeyError m) = m"
| "str_exn (ValueError m) = m"
| "str_exn (Exception m) = m"

text \<open>
  \<open>repr(s)\<close> of a string: between apostrophes, or between double quotes when the string
  holds an apostrophe and no double quote; the quote in use and the backslash are escaped,
  tab, newline and carriage return are written \<open>\t\<close>, \<open>\n\<close>, \<open>\r\<close>, and the other control
  characters as two hexadecimal digits. Bytes of text outside ASCII are kept: that text is
  taken to be printable.
\<close>

definition backslash :: char where
  "backslash = CHR 0x5C"

definition double_quote :: char where
  "double_quote = CHR 0x22"

definition hex_digit :: "nat \<Rightarrow> char" where
  "hex_digit d = (if d < 10 then char_of (48 + d) else char_of (87 + d))"

definition repr_char :: "char \<Rightarrow> char \<Rightarrow> string" where
  "repr_char q c =
     (if c = q \<or> c = backslash then [backslash, c]
      else if c = CHR 0x09 then [backslash, CHR ''t'']
      else if c = CHR 0x0A then [backslash, CHR ''n'']
      else if c = CHR 0x0D then [backslash, CHR ''r'']
      else if (of_char c :: nat) < 32 \<or> (of_char c :: nat) = 127
      then [backslash, CHR ''x'', hex_digit (of_char c div 16), hex_digit (of_char c mod 16)]
      else [c])"

definition py_repr :: "string \<Rightarrow> string" where
  "py_repr s =
     (let q = (if apostrophe \<in> set s \<and> double_quote \<notin> set s then double_quote
               else apostrophe)
      in q # concat (map (repr_char q) s) @ [q])"

text \<open>An f-string field \<open>{x}\<close> of an optional string prints \<open>None\<close> for \<open>None\<close>.\<close>

fun py_str :: "string option \<Rightarrow> string" where
  "py_str None = ''None''"
| "py_str (Some s) = s"

definition digit_char :: "nat \<Rightarrow> char" where
  "digit_char d = char_of (48 + d)"

fun str_nat :: "nat \<Rightarrow> string" where
  "str_nat n = (if n < 10 then [digit_char n] else str_nat (n div 10) @ [digit_char (n mod 10)])"

declare str_nat.simps [simp del]

text \<open>
  \<open>Path(p).name\<close> for a POSIX path: the path is cut at every slash, empty components and
  \<open>.\<close> components are dropped, and the name is the last component left (empty when none
  is left, as for the root).
\<close>

fun components :: "string \<Rightarrow> string list" where
  "components [] = [[]]"
| "components (c # cs) =
     (if c = CHR ''/'' then [] # components cs
      else (case components cs of [] \<Rightarrow> [[c]] | x # xs \<Rightarrow> (c # x) # xs))"

definition path_name :: "string \<Rightarrow> string" where
  "path_name p =
     (case filter (\<lambda>c. c \<noteq> [] \<and> c \<noteq> ''.'') (components p) of
        [] \<Rightarrow> []
      | q # qs \<Rightarrow> last (q # qs))"

subsection \<open>Tables\<close>

text \<open>
  A pandas DataFrame: the labels of its rows (its index) and the named columns in order.
  \<open>pd.read_csv\<close> labels the rows \<open>0, 1, 2, ...\<close>. The cells are opaque to the script.
\<close>

datatype cell = IntCell int | StrCell string | NaN

record dataframe =
  row_labels :: "int list"
  cols :: "(string \<times> cell list) list"

definition nrows :: "dataframe \<Rightarrow> nat" where
  "nrows df = length (row_labels df)"

definition wf_dataframe :: "dataframe \<Rightarrow> bool" where
  "wf_dataframe df = list_all (\<lambda>(n, c). length c = nrows df) (cols df)"

text \<open>A pandas Series: its labels and its values.\<close>

type_synonym series = "int list \<times> cell list"

text \<open>\<open>df[name]\<close>: the column as a Series with the labels of the table, or \<open>KeyError\<close>.\<close>

definition getitem :: "dataframe \<Rightarrow> string \<Rightarrow> exn + series" where
  "getitem df name =
     (case map_of (cols df) name of
        None \<Rightarrow> Inl (KeyError (py_repr name))
      | Some c \<Rightarrow> Inr (row_labels df, c))"

text \<open>The cells of the row at position \<open>i\<close>, in column order.\<close>

definition row :: "dataframe \<Rightarrow> nat \<Rightarrow> cell list" where
  "row df i = map (\<lambda>(n, c). c ! i) (cols df)"

text \<open>\<open>df.head()\<close>: the first five rows.\<close>

definition head :: "dataframe \<Rightarrow> dataframe" where
  "head df =
     \<lparr>row_labels = take 5 (row_labels df), cols = map (\<lambda>(n, c). (n, take 5 c)) (cols df)\<rparr>"

text \<open>
  What \<open>loaded_model.predict\<close> may return: a list or one-dimensional array, which has
  positions only; a Series, which has labels; or a two-dimensional array or table.
\<close>

datatype prediction =
    Sequence "cell list"
  | Series "int list" "cell list"
  | TwoDimensional

text \<open>\<open>s.reindex(target)\<close>: the value at each label of \<open>target\<close>, \<open>NaN\<close> where \<open>s\<close> has none.\<close>

definition reindex :: "int list \<Rightarrow> series \<Rightarrow> cell list" where
  "reindex target s =
     map (\<lambda>l. case map_of (zip (fst s) (snd s)) l of None \<Rightarrow> NaN | Some v \<Rightarrow> v) target"

text \<open>
  \<open>pd.DataFrame({k1: s, k2: v})\<close> for a Series \<open>s\<close>. The rows of the result are labelled by
  the union of the labels of the Series among the values.
  \<^item> A sequence \<open>v\<close> has no labels: the row labels are those of \<open>s\<close>, the values of \<open>v\<close> are
    taken by position, and their number must be the number of labels.
  \<^item> A Series \<open>v\<close> with the labels of \<open>s\<close> in the same order is taken as it is. With other
    labels the union is sorted and both Series are reindexed to it, by label: values
    move to the row of their label, and a label absent from a Series gives \<open>NaN\<close>.
    A Series with a repeated label cannot be reindexed.
  \<^item> A two-dimensional value is refused.
\<close>

definition DataFrame :: "string \<Rightarrow> series \<Rightarrow> string \<Rightarrow> prediction \<Rightarrow> exn + dataframe" where
  "DataFrame k1 s k2 v =
     (case v of
        Sequence xs \<Rightarrow>
          if length xs = length (fst s)
          then Inr \<lparr>row_labels = fst s, cols = [(k1, snd s), (k2, xs)]\<rparr>
          else Inl (ValueError (''array length '' @ str_nat (length xs)
                     @ '' does not match index length '' @ str_nat (length (fst s))))
      | Series labels xs \<Rightarrow>
          if labels = fst s
          then Inr \<lparr>row_labels = fst s, cols = [(k1, snd s), (k2, xs)]\<rparr>
          else if distinct (fst s) \<and> distinct labels
          then (let union = sort (remdups (fst s @ labels))
                in Inr \<lparr>row_labels = union,
                        cols = [(k1, reindex union s), (k2, reindex union (labels, xs))]\<rparr>)
          else Inl (ValueError ''cannot reindex on an axis with duplicate labels'')
      | TwoDimensional \<Rightarrow> Inl (ValueError ''Data must be 1-dimensional''))"

subsection \<open>The outside world\<close>

datatype event =
    Print string
  | Boto3Client "string option" "string option" "string option" string
  | HeadObject "string option" "string option"
  | MkdirParents string
  | DownloadFile "string option" "string option" string
  | UploadFile string "string option" string
  | ReadCsv string
  | ToCsv string
  | SetTrackingUri "string option"
  | LoadModel "string option"
  | ModelPredict nat dataframe

text \<open>
  \<open>files\<close> maps the path of each regular file to its content; \<open>trace\<close> lists the effects
  in the order they happened.
\<close>

record state =
  files :: "string \<rightharpoonup> string"
  trace :: "event list"

text \<open>
  One field per library call, giving its answer as a function of its arguments:
  \<open>None\<close> or \<open>Inr\<close> when the call returns, the raised exception otherwise.
  \<^item> \<open>s3_client\<close>: \<open>boto3.client("s3", endpoint_url, key id, secret, region)\<close>;
  \<^item> \<open>s3_head_object\<close>: \<open>head_object(Bucket, Key)\<close>, returning \<open>ContentLength\<close>;
  \<^item> \<open>s3_download_file\<close>: \<open>download_file(bucket, key, path)\<close>, returning the object's bytes;
  \<^item> \<open>s3_upload_file\<close>: \<open>upload_file(path, bucket, key)\<close>;
  \<^item> \<open>mkdir\<close>: \<open>Path(path).parent.mkdir(parents=True, exist_ok=True)\<close>;
  \<^item> \<open>read_csv\<close>, \<open>to_csv\<close>, \<open>repr\<close>: pandas' parser, serializer and table rendering;
  \<^item> \<open>to_csv_failure\<close>: whether \<open>df.to_csv(path)\<close> fails: \<open>None\<close> when the file is written
    in full, otherwise the exception raised and what the failed write leaves at \<open>path\<close>
    (\<open>None\<close> when it leaves the path as it was, or the partial content);
  \<^item> \<open>load_model\<close>: \<open>mlflow.pyfunc.load_model(ref)\<close>, returning a model handle;
  \<^item> \<open>model_predict\<close>: \<open>handle.predict(table)\<close>;
  \<^item> \<open>default_tracking_uri\<close>: what \<open>mlflow.get_tracking_uri()\<close> gives when none is set.
\<close>

record env =
  environ :: "string \<rightharpoonup> string"
  s3_client :: "string option \<Rightarrow> string option \<Rightarrow> string option \<Rightarrow> string \<Rightarrow> exn option"
  s3_head_object :: "string option \<Rightarrow> string option \<Rightarrow> exn + nat"
  s3_download_file :: "string option \<Rightarrow> string option \<Rightarrow> string \<Rightarrow> exn + string"
  s3_upload_file :: "string \<Rightarrow> string option \<Rightarrow> string \<Rightarrow> exn option"
  mkdir :: "string \<Rightarrow> exn option"
  read_csv :: "string \<Rightarrow> exn + dataframe"
  to_csv :: "dataframe \<Rightarrow> string"
  to_csv_failure :: "dataframe \<Rightarrow> string \<Rightarrow> (exn \<times> string option) option"
  repr :: "dataframe \<Rightarrow> string"
  load_model :: "string option \<Rightarrow> exn + nat"
  model_predict :: "nat \<Rightarrow> dataframe \<Rightarrow> exn + prediction"
  default_tracking_uri :: string

subsection \<open>Sequencing, raising and catching\<close>

type_synonym 'a prog = "state \<Rightarrow> (exn + 'a) \<times> state"

definition ret :: "'a \<Rightarrow> 'a prog" where
  "ret x s = (Inr x, s)"

definition raise :: "exn \<Rightarrow> 'a prog" where
  "raise e s = (Inl e, s)"

text \<open>\<open>m; f\<close>: a raised exception skips the rest.\<close>

definition bind :: "'a prog \<Rightarrow> ('a \<Rightarrow> 'b prog) \<Rightarrow> 'b prog" where
  "bind m f s = (case m s of (Inl e, s') \<Rightarrow> (Inl e, s') | (Inr x, s') \<Rightarrow> f x s')"

text \<open>\<open>try: m except ... as e: h e\<close>, where \<open>h\<close> re-raises what no clause matches.\<close>

definition try_except :: "'a prog \<Rightarrow> (exn \<Rightarrow> 'a prog) \<Rightarrow> 'a prog" where
  "try_except m h s = (case m s of (Inl e, s') \<Rightarrow> h e s' | (Inr x, s') \<Rightarrow> (Inr x, s'))"

definition emit :: "event \<Rightarrow> unit prog" where
  "emit ev s = (Inr (), s\<lparr>trace := trace s @ [ev]\<rparr>)"

definition print :: "string \<Rightarrow> unit prog" where
  "print msg = emit (Print msg)"

text \<open>An external call: the effect is recorded, then the world's answer is returned or raised.\<close>

definition call :: "event \<Rightarrow> exn + 'a \<Rightarrow> 'a prog" where
  "call ev r = bind (emit ev) (\<lambda>_. case r of Inl e \<Rightarrow> raise e | Inr x \<Rightarrow> ret x)"

definition call_unit :: "event \<Rightarrow> exn option \<Rightarrow> unit prog" where
  "call_unit ev r = call ev (case r of None \<Rightarrow> Inr () | Some e \<Rightarrow> Inl e)"

definition isfile :: "state \<Rightarrow> string \<Rightarrow> bool" where
  "isfile s p = (files s p \<noteq> None)"

definition getsize :: "string \<Rightarrow> nat prog" where
  "getsize p s =
     (case files s p of
        None \<Rightarrow> (Inl (Exception ''No such file or directory''), s)
      | Some content \<Rightarrow> (Inr (length content), s))"

definition write_file :: "string \<Rightarrow> string \<Rightarrow> unit prog" where
  "write_file p content s = (Inr (), s\<lparr>files := (files s)(p \<mapsto> content)\<rparr>)"

definition getenv :: "env \<Rightarrow> string \<Rightarrow> string option" where
  "getenv E name = environ E name"

definition getenv_default :: "env \<Rightarrow> string \<Rightarrow> string \<Rightarrow> string" where
  "getenv_default E name d = (case environ E name of None \<Rightarrow> d | Some v \<Rightarrow> v)"

subsection \<open>upload_file_to_s3\<close>

text \<open>The three handlers of the \<open>try\<close>, shared in wording by both transfer functions.\<close>

definition print_credentials_help :: "unit prog" where
  "print_credentials_help =
     bind (print (cross_mark @ '' Error: AWS credentials not found. Please configure your credentials.'')) (\<lambda>_.
     bind (print ''You can set them via:'') (\<lambda>_.
     bind (print ''  - Environment variables (AWS_ACCESS_KEY_ID, AWS_SECRET_ACCESS_KEY)'') (\<lambda>_.
     bind (print ''  - AWS credentials file (~/.aws/credentials)'') (\<lambda>_.
     print ''  - IAM roles (if running on EC2)''))))"

definition upload_body ::
  "env \<Rightarrow> string \<Rightarrow> string option \<Rightarrow> string \<Rightarrow> string option \<Rightarrow> string option \<Rightarrow>
   string option \<Rightarrow> string \<Rightarrow> bool prog" where
  "upload_body E file_path bucket_name object_key endpoint_url aws_access_key_id
     aws_secret_access_key region =
     bind (call_unit (Boto3Client endpoint_url aws_access_key_id aws_secret_access_key region)
             (s3_client E endpoint_url aws_access_key_id aws_secret_access_key region)) (\<lambda>_.
     bind (getsize file_path) (\<lambda>file_size.
     bind (print (''Uploading '' @ quoted file_path @ '' ('' @ str_nat file_size
                  @ '' bytes) to bucket '' @ quoted (py_str bucket_name) @ '' as ''
                  @ quoted object_key @ ''...'')) (\<lambda>_.
     bind (call_unit (UploadFile file_path bucket_name object_key)
             (s3_upload_file E file_path bucket_name object_key)) (\<lambda>_.
     bind (print (check_mark @ '' Successfully uploaded '' @ quoted object_key
                  @ '' to bucket '' @ quoted (py_str bucket_name))) (\<lambda>_.
     bind (print (file_folder @ '' File URL: '' @
             (case endpoint_url of
                None \<Rightarrow> ''https://'' @ py_str bucket_name @ ''.s3.'' @ region
                          @ ''.amazonaws.com/'' @ object_key
              | Some ep \<Rightarrow> ep @ ''/'' @ py_str bucket_name @ ''/'' @ object_key))) (\<lambda>_.
     ret True))))))"

definition upload_handler :: "string option \<Rightarrow> exn \<Rightarrow> bool prog" where
  "upload_handler bucket_name e =
     (case e of
        NoCredentialsError m \<Rightarrow> bind print_credentials_help (\<lambda>_. ret False)
      | ClientError error_code m \<Rightarrow>
          bind (if error_code = ''NoSuchBucket''
                then print (cross_mark @ '' Error: Bucket '' @ quoted (py_str bucket_name)
                            @ '' does not exist.'')
                else if error_code = ''AccessDenied''
                then print (cross_mark @ '' Error: Access denied. Check your permissions for bucket ''
                            @ quoted (py_str bucket_name) @ ''.'')
                else print (cross_mark @ '' Error uploading file: '' @ str_exn e)) (\<lambda>_.
          ret False)
      | _ \<Rightarrow> bind (print (cross_mark @ '' Unexpected error: '' @ str_exn e)) (\<lambda>_. ret False))"

definition upload_file_to_s3 ::
  "env \<Rightarrow> string \<Rightarrow> string option \<Rightarrow> string option \<Rightarrow> string option \<Rightarrow> string option \<Rightarrow>
   string option \<Rightarrow> string \<Rightarrow> bool prog" where
  "upload_file_to_s3 E file_path bucket_name object_key endpoint_url aws_access_key_id
     aws_secret_access_key region s =
     (if \<not> isfile s file_path
      then bind (print (''Error: File '' @ quoted file_path @ '' not found.'')) (\<lambda>_. ret False) s
      else
        (let object_key = (case object_key of None \<Rightarrow> path_name file_path | Some k \<Rightarrow> k)
         in try_except
              (upload_body E file_path bucket_name object_key endpoint_url aws_access_key_id
                 aws_secret_access_key region)
              (upload_handler bucket_name) s))"

subsection \<open>download_file_from_s3\<close>

text \<open>
  The inner \<open>try\<close> around the metadata probe. Its value says whether the function goes
  on: \<open>False\<close> stands for the \<open>return False\<close> of the not-found branch. A \<open>ClientError\<close>
  with another code is replaced by a generic exception, raised inside the outer \<open>try\<close>;
  an exception of another class is not caught here.
\<close>

definition download_probe :: "env \<Rightarrow> string option \<Rightarrow> string option \<Rightarrow> string \<Rightarrow> bool prog" where
  "download_probe E bucket_name object_key file_path =
     try_except
       (bind (call (HeadObject bucket_name object_key) (s3_head_object E bucket_name object_key))
          (\<lambda>file_size.
        bind (print (''Downloading '' @ quoted (py_str object_key) @ '' ('' @ str_nat file_size
                     @ '' bytes) from bucket '' @ quoted (py_str bucket_name) @ '' to ''
                     @ quoted file_path @ ''...'')) (\<lambda>_.
        ret True)))
       (\<lambda>e. case e of
          ClientError error_code m \<Rightarrow>
            if error_code = ''404''
            then bind (print (cross_mark @ '' Error: Object '' @ quoted (py_str object_key)
                              @ '' not found in bucket '' @ quoted (py_str bucket_name) @ ''.''))
                   (\<lambda>_. ret False)
            else raise (Exception ''Error checking object existence'')
        | _ \<Rightarrow> raise e)"

definition download_body ::
  "env \<Rightarrow> string option \<Rightarrow> string option \<Rightarrow> string \<Rightarrow> string option \<Rightarrow> string option \<Rightarrow>
   string option \<Rightarrow> string \<Rightarrow> bool prog" where
  "download_body E bucket_name object_key file_path endpoint_url aws_access_key_id
     aws_secret_access_key region =
     bind (call_unit (Boto3Client endpoint_url aws_access_key_id aws_secret_access_key region)
             (s3_client E endpoint_url aws_access_key_id aws_secret_access_key region)) (\<lambda>_.
     bind (download_probe E bucket_name object_key file_path) (\<lambda>found.
     if \<not> found then ret False
     else
       bind (call_unit (MkdirParents file_path) (mkdir E file_path)) (\<lambda>_.
       bind (call (DownloadFile bucket_name object_key file_path)
               (s3_download_file E bucket_name object_key file_path)) (\<lambda>content.
       bind (write_file file_path content) (\<lambda>_.
       bind (print (check_mark @ '' Successfully downloaded '' @ quoted (py_str object_key)
                    @ '' to '' @ quoted file_path)) (\<lambda>_.
       bind (\<lambda>s. if isfile s file_path
                 then bind (getsize file_path) (\<lambda>local_size.
                        print (file_folder @ '' Local file size: '' @ str_nat local_size
                               @ '' bytes'')) s
                 else ret () s) (\<lambda>_.
       ret True)))))))"

definition download_handler :: "string option \<Rightarrow> string option \<Rightarrow> exn \<Rightarrow> bool prog" where
  "download_handler bucket_name object_key e =
     (case e of
        NoCredentialsError m \<Rightarrow> bind print_credentials_help (\<lambda>_. ret False)
      | ClientError error_code m \<Rightarrow>
          bind (if error_code = ''NoSuchBucket''
                then print (cross_mark @ '' Error: Bucket '' @ quoted (py_str bucket_name)
                            @ '' does not exist.'')
                else if error_code = ''AccessDenied''
                then print (cross_mark @ '' Error: Access denied. Check your permissions for bucket ''
                            @ quoted (py_str bucket_name) @ '' and object ''
                            @ quoted (py_str object_key) @ ''.'')
                else print (cross_mark @ '' Error downloading file: '' @ str_exn e)) (\<lambda>_.
          ret False)
      | _ \<Rightarrow> bind (print (cross_mark @ '' Unexpected error: '' @ str_exn e)) (\<lambda>_. ret False))"

text \<open>
  With \<open>file_path\<close> omitted the local path is \<open>Path(object_key).name\<close>, computed before the
  \<open>try\<close>: \<open>Path(None)\<close> raises \<open>TypeError\<close> to the caller.
\<close>

definition download_file_from_s3 ::
  "env \<Rightarrow> string option \<Rightarrow> string option \<Rightarrow> string option \<Rightarrow> string option \<Rightarrow> string option \<Rightarrow>
   string option \<Rightarrow> string \<Rightarrow> bool prog" where
  "download_file_from_s3 E bucket_name object_key file_path endpoint_url aws_access_key_id
     aws_secret_access_key region =
     bind (case file_path of
             Some p \<Rightarrow> ret p
           | None \<Rightarrow>
               (case object_key of
                  None \<Rightarrow> raise (TypeError ''expected str, bytes or os.PathLike object, not NoneType'')
                | Some k \<Rightarrow> ret (path_name k))) (\<lambda>file_path.
     try_except
       (download_body E bucket_name object_key file_path endpoint_url aws_access_key_id
          aws_secret_access_key region)
       (download_handler bucket_name object_key))"

subsection \<open>predict and persist_predictions\<close>

definition predict :: "env \<Rightarrow> dataframe \<Rightarrow> prediction prog" where
  "predict E input_data =
     (let logged_model = getenv E ''MLFLOW_LOGGED_MODEL'' in
      bind (call (LoadModel logged_model) (load_model E logged_model)) (\<lambda>loaded_model.
      call (ModelPredict loaded_model input_data) (model_predict E loaded_model input_data)))"

text \<open>
  \<open>df.to_csv(path, index=False)\<close> replaces the file at \<open>path\<close> by the serialized table, or
  fails: it then raises, and the path is left as it was or holds part of the content.
\<close>

definition df_to_csv :: "env \<Rightarrow> dataframe \<Rightarrow> string \<Rightarrow> unit prog" where
  "df_to_csv E df path =
     bind (emit (ToCsv path)) (\<lambda>_.
     case to_csv_failure E df path of
       None \<Rightarrow> write_file path (to_csv E df)
     | Some (e, left) \<Rightarrow>
         bind (case left of None \<Rightarrow> ret () | Some partial \<Rightarrow> write_file path partial) (\<lambda>_.
         raise e))"

definition persist_predictions :: "env \<Rightarrow> dataframe \<Rightarrow> bool prog" where
  "persist_predictions E df =
     bind (df_to_csv E df ''/tmp/predictions.csv'') (\<lambda>_.
     bind (upload_file_to_s3 E ''/tmp/predictions.csv''
             (getenv E ''S3_BUCKET_NAME'')
             (Some ''data/predictions.csv'')
             (getenv E ''S3_ENDPOINT_URL'')
             (getenv E ''AWS_ACCESS_KEY_ID'')
             (getenv E ''AWS_SECRET_ACCESS_KEY'')
             (getenv_default E ''AWS_DEFAULT_REGION'' ''us-east-1'')) (\<lambda>uploaded.
     ret uploaded))"

subsection \<open>The script\<close>

text \<open>\<open>pd.read_csv(path)\<close>: the file is read and parsed; either step may raise.\<close>

definition pd_read_csv :: "env \<Rightarrow> string \<Rightarrow> dataframe prog" where
  "pd_read_csv E path =
     bind (emit (ReadCsv path)) (\<lambda>_ s.
       case files s path of
         None \<Rightarrow> (Inl (Exception ''No such file or directory''), s)
       | Some content \<Rightarrow>
           (case read_csv E content of Inl e \<Rightarrow> (Inl e, s) | Inr df \<Rightarrow> (Inr df, s)))"

text \<open>
  The global \<open>df\<close> is bound only in the success branch of the download; reading it while
  unbound raises \<open>NameError\<close>.
\<close>

definition global_df :: "dataframe option \<Rightarrow> dataframe prog" where
  "global_df df =
     (case df of
        None \<Rightarrow> raise (NameError (''name '' @ quoted ''df'' @ '' is not defined''))
      | Some d \<Rightarrow> ret d)"

definition get_tracking_uri :: "env \<Rightarrow> string option \<Rightarrow> string" where
  "get_tracking_uri E uri = (case uri of None \<Rightarrow> default_tracking_uri E | Some u \<Rightarrow> u)"

text \<open>Lines 248 to 256: the download of the input to its staging path.\<close>

definition main_download :: "env \<Rightarrow> bool prog" where
  "main_download E =
     download_file_from_s3 E
       (getenv E ''S3_BUCKET_NAME'')
       (getenv E ''S3_OBJECT_KEY'')
       (Some ''/tmp/test.csv'')
       (getenv E ''S3_ENDPOINT_URL'')
       (getenv E ''AWS_ACCESS_KEY_ID'')
       (getenv E ''AWS_SECRET_ACCESS_KEY'')
       (getenv_default E ''AWS_DEFAULT_REGION'' ''us-east-1'')"

text \<open>Lines 272 to 277: any exception of the prediction is wrapped and raised again.\<close>

definition main_predict :: "env \<Rightarrow> dataframe option \<Rightarrow> prediction prog" where
  "main_predict E df =
     try_except
       (bind (print ''Making predictions...'') (\<lambda>_.
        bind (global_df df) (\<lambda>d.
        predict E d)))
       (\<lambda>e. raise (Exception (cross_mark @ '' Error during prediction: '' @ str_exn e)))"

text \<open>Lines 279 to 284: the identifier column of the input beside the predictions.\<close>

definition preds_df :: "dataframe \<Rightarrow> prediction \<Rightarrow> exn + dataframe" where
  "preds_df df predictions =
     (case getitem df ''PassengerId'' of
        Inl e \<Rightarrow> Inl e
      | Inr ids \<Rightarrow> DataFrame ''PassengerId'' ids ''predictions'' predictions)"

text \<open>
  Lines 286 to 288, the end of the script: the value \<open>persist_predictions\<close> returns is
  not used.
\<close>

definition main_report :: "env \<Rightarrow> dataframe \<Rightarrow> unit prog" where
  "main_report E table =
     bind (print ''Predictions:'') (\<lambda>_.
     bind (print (repr E (head table))) (\<lambda>_.
     bind (persist_predictions E table) (\<lambda>_.
     ret ())))"

definition main :: "env \<Rightarrow> unit prog" where
  "main E =
     bind (main_download E) (\<lambda>downloaded.
     bind (if downloaded
           then bind (pd_read_csv E ''/tmp/test.csv'') (\<lambda>df.
                bind (print (repr E (head df))) (\<lambda>_.
                ret (Some df)))
           else bind (print ''File download failed.'') (\<lambda>_. ret None)) (\<lambda>df.
     let mlflow_server_url = getenv E ''MLFLOW_TRACKING_URI'' in
     bind (emit (SetTrackingUri mlflow_server_url)) (\<lambda>_.
     bind (print (''MLflow Tracking URI: '' @ get_tracking_uri E mlflow_server_url)) (\<lambda>_.
     bind (main_predict E df) (\<lambda>predictions.
     bind (global_df df) (\<lambda>d.
     bind (case preds_df d predictions of Inl e \<Rightarrow> raise e | Inr t \<Rightarrow> ret t) (\<lambda>table.
     main_report E table)))))))"

subsection \<open>Vocabulary for the traces\<close>

fun is_print :: "event \<Rightarrow> bool" where
  "is_print (Print m) = True"
| "is_print _ = False"

fun is_client :: "event \<Rightarrow> bool" where
  "is_client (Boto3Client a b c d) = True"
| "is_client _ = False"

fun is_probe :: "event \<Rightarrow> bool" where
  "is_probe (HeadObject a b) = True"
| "is_probe _ = False"

fun is_download :: "event \<Rightarrow> bool" where
  "is_download (DownloadFile a b c) = True"
| "is_download _ = False"

fun is_mkdir :: "event \<Rightarrow> bool" where
  "is_mkdir (MkdirParents a) = True"
| "is_mkdir _ = False"

fun is_upload :: "event \<Rightarrow> bool" where
  "is_upload (UploadFile a b c) = True"
| "is_upload _ = False"

fun is_prediction :: "event \<Rightarrow> bool" where
  "is_prediction (LoadModel a) = True"
| "is_prediction (ModelPredict a b) = True"
| "is_prediction _ = False"

fun is_to_csv :: "event \<Rightarrow> bool" where
  "is_to_csv (ToCsv a) = True"
| "is_to_csv _ = False"

text \<open>The five lines both transfer functions print when the credentials are missing.\<close>

definition credentials_help :: "string list" where
  "credentials_help =
     [cross_mark @ '' Error: AWS credentials not found. Please configure your credentials.'',
      ''You can set them via:'',
      ''  - Environment variables (AWS_ACCESS_KEY_ID, AWS_SECRET_ACCESS_KEY)'',
      ''  - AWS credentials file (~/.aws/credentials)'',
      ''  - IAM roles (if running on EC2)'']"

text \<open>
  \<open>effects W P m\<close>: whatever \<open>m\<close> does, it only appends events satisfying \<open>P\<close> to the trace
  and, unless \<open>W\<close> allows writing, leaves the local files as they were.
\<close>

definition effects :: "bool \<Rightarrow> (event \<Rightarrow> bool) \<Rightarrow> 'a prog \<Rightarrow> bool" where
  "effects W P m =
     (\<forall>s r s'. m s = (r, s') \<longrightarrow>
        (W \<or> files s' = files s) \<and> (\<exists>evs. trace s' = trace s @ evs \<and> list_all P evs))"

fun is_client_error :: "exn \<Rightarrow> bool" where
  "is_client_error (ClientError c m) = True"
| "is_client_error _ = False"

text \<open>The answer of the store that the probe treats as not-found.\<close>

fun is_not_found :: "exn \<Rightarrow> bool" where
  "is_not_found (ClientError c m) = (c = ''404'')"
| "is_not_found _ = False"

subsection \<open>A sample world\<close>

text \<open>
  Three passengers, a store that answers every request, and a model that predicts
  \<open>0, 1, 0\<close>. The examples below vary single answers of this world.
\<close>

definition demo_table :: dataframe where
  "demo_table =
     \<lparr>row_labels = [0, 1, 2],
      cols = [(''PassengerId'', [IntCell 1, IntCell 2, IntCell 3]),
              (''Feature1'', [StrCell ''0.5'', StrCell ''1.2'', StrCell ''0.9''])]\<rparr>"

text \<open>The predictions \<open>1, 0, 0\<close> of rows \<open>0, 1, 2\<close>, as a Series listed from the last row up.\<close>

definition reversed_series :: prediction where
  "reversed_series = Series [2, 1, 0] [IntCell 0, IntCell 0, IntCell 1]"

text \<open>The table assembled from the sample input and the predictions \<open>0, 1, 0\<close>.\<close>

definition demo_result :: dataframe where
  "demo_result =
     \<lparr>row_labels = [0, 1, 2],
      cols = [(''PassengerId'', [IntCell 1, IntCell 2, IntCell 3]),
              (''predictions'', [IntCell 0, IntCell 1, IntCell 0])]\<rparr>"

definition demo_env :: env where
  "demo_env =
     \<lparr>environ = [''S3_BUCKET_NAME'' \<mapsto> ''titanic'', ''S3_OBJECT_KEY'' \<mapsto> ''data/test.csv'',
                 ''MLFLOW_LOGGED_MODEL'' \<mapsto> ''runs:/1/model''],
      s3_client = (\<lambda>endpoint_url key_id secret region. None),
      s3_head_object = (\<lambda>bucket key. Inr 38),
      s3_download_file = (\<lambda>bucket key path. Inr ''PassengerId,Feature1;1,0.5;2,1.2;3,0.9''),
      s3_upload_file = (\<lambda>path bucket key. None),
      mkdir = (\<lambda>path. None),
      read_csv = (\<lambda>content. Inr demo_table),
      to_csv = (\<lambda>df. ''PassengerId,predictions;1,0;2,1;3,0''),
      to_csv_failure = (\<lambda>df path. None),
      repr = (\<lambda>df. ''table''),
      load_model = (\<lambda>ref. Inr 7),
      model_predict = (\<lambda>handle df. Inr (Sequence [IntCell 0, IntCell 1, IntCell 0])),
      default_tracking_uri = ''file:///mlruns''\<rparr>"

definition demo_state :: state where
  "demo_state = \<lparr>files = Map.empty, trace = []\<rparr>"

definition staged_state :: state where
  "staged_state = \<lparr>files = [''/tmp/predictions.csv'' \<mapsto> ''PassengerId,predictions''], trace = []\<rparr>"

text \<open>
  The same world with the object missing, access forbidden, no credentials, no configured
  bucket (the client then rejects the request's parameters), a broken model, a bucket
  that does not exist, and a disk that fills up while the table is written.
\<close>

definition missing_env :: env where
  "missing_env = demo_env\<lparr>s3_head_object := (\<lambda>bucket key. Inl (ClientError ''404'' ''Not Found''))\<rparr>"

definition forbidden_env :: env where
  "forbidden_env = demo_env\<lparr>s3_head_object := (\<lambda>bucket key. Inl (ClientError ''403'' ''Forbidden''))\<rparr>"

definition anonymous_env :: env where
  "anonymous_env =
     demo_env\<lparr>s3_head_object :=
                 (\<lambda>bucket key. Inl (NoCredentialsError ''Unable to locate credentials'')),
               s3_upload_file :=
                 (\<lambda>path bucket key. Some (NoCredentialsError ''Unable to locate credentials''))\<rparr>"


definition no_bucket_env :: env where
  "no_bucket_env =
     demo_env\<lparr>s3_upload_file :=
                 (\<lambda>path bucket key. Some (ClientError ''NoSuchBucket'' ''The bucket does not exist''))\<rparr>"

definition full_disk_env :: env where
  "full_disk_env =
     demo_env\<lparr>to_csv_failure :=
                 (\<lambda>df path. Some (Exception ''No space left on device'',
                                   Some ''PassengerId,predictions;1,0''))\<rparr>"

definition broken_model_env :: env where
  "broken_model_env =
     demo_env\<lparr>model_predict := (\<lambda>handle df. Inl (ValueError ''bad input''))\<rparr>"

section \<open>Running the primitives\<close>

lemma run_ret [simp]: "ret x s = (Inr x, s)"
  by (simp add: ret_def)

lemma run_raise [simp]: "raise e s = (Inl e, s)"
  by (simp add: raise_def)

lemma run_print [simp]: "print m s = (Inr (), s\<lparr>trace := trace s @ [Print m]\<rparr>)"
  by (simp add: print_def emit_def)

lemma run_call_Inr [simp]: "call ev (Inr x) s = (Inr x, s\<lparr>trace := trace s @ [ev]\<rparr>)"
  by (simp add: call_def bind_def emit_def)

lemma run_call_Inl [simp]: "call ev (Inl e) s = (Inl e, s\<lparr>trace := trace s @ [ev]\<rparr>)"
  by (simp add: call_def bind_def emit_def)

lemma bind_ret [simp]: "bind (ret x) f s = f x s"
  by (simp add: bind_def)

lemma bind_raise [simp]: "bind (raise e) f s = (Inl e, s)"
  by (simp add: bind_def)

lemma bind_emit [simp]: "bind (emit ev) f s = f () (s\<lparr>trace := trace s @ [ev]\<rparr>)"
  by (simp add: bind_def emit_def)

lemma bind_print [simp]: "bind (print m) f s = f () (s\<lparr>trace := trace s @ [Print m]\<rparr>)"
  by (simp add: print_def)

lemma bind_call_unit_None [simp]:
  "bind (call_unit ev None) f s = f () (s\<lparr>trace := trace s @ [ev]\<rparr>)"
  by (simp add: call_unit_def bind_def)

lemma bind_call_unit_Some [simp]:
  "bind (call_unit ev (Some e)) f s = (Inl e, s\<lparr>trace := trace s @ [ev]\<rparr>)"
  by (simp add: call_unit_def bind_def)

lemma bind_call_Inr [simp]:
  "bind (call ev (Inr x)) f s = f x (s\<lparr>trace := trace s @ [ev]\<rparr>)"
  by (simp add: bind_def)

lemma bind_call_Inl [simp]:
  "bind (call ev (Inl e)) f s = (Inl e, s\<lparr>trace := trace s @ [ev]\<rparr>)"
  by (simp add: bind_def)

lemma bind_getsize [simp]:
  "files s p = Some c \<Longrightarrow> bind (getsize p) f s = f (length c) s"
  by (simp add: bind_def getsize_def)

lemma bind_write_file [simp]:
  "bind (write_file p c) f s = f () (s\<lparr>files := (files s)(p \<mapsto> c)\<rparr>)"
  by (simp add: bind_def write_file_def)

lemma bind_assoc [simp]: "bind (bind m f) g = bind m (\<lambda>x. bind (f x) g)"
  by (rule ext) (simp add: bind_def split: prod.splits sum.splits)

lemma bind_print_credentials_help [simp]:
  "bind print_credentials_help f s = f () (s\<lparr>trace := trace s @ map Print credentials_help\<rparr>)"
  by (simp add: print_credentials_help_def credentials_help_def)

lemma bind_run: "m s = (Inr x, s1) \<Longrightarrow> bind m f s = f x s1"
  by (simp add: bind_def)

section \<open>Frames\<close>

lemma effectsD:
  "effects W P m \<Longrightarrow> m s = (r, s') \<Longrightarrow>
   (W \<or> files s' = files s) \<and> (\<exists>evs. trace s' = trace s @ evs \<and> list_all P evs)"
  by (simp add: effects_def)

lemma effects_ret: "effects W P (ret x)"
  by (simp add: effects_def)

lemma effects_raise: "effects W P (raise e)"
  by (simp add: effects_def)

lemma effects_emit: "P ev \<Longrightarrow> effects W P (emit ev)"
  by (auto simp: effects_def emit_def)

lemma effects_print: "P (Print m) \<Longrightarrow> effects W P (print m)"
  by (simp add: print_def effects_emit)

lemma effects_getsize: "effects W P (getsize p)"
  by (auto simp: effects_def getsize_def split: option.splits)

lemma effects_write_file: "effects True P (write_file p c)"
  by (auto simp: effects_def write_file_def)

lemma effects_bind:
  assumes "effects W P m" and "\<And>x. effects W P (f x)"
  shows "effects W P (bind m f)"
  unfolding effects_def
proof (intro allI impI)
  fix s r s'
  assume run: "bind m f s = (r, s')"
  obtain r1 s1 where m: "m s = (r1, s1)" by (cases "m s")
  from effectsD [OF assms(1) m] obtain evs1
    where f1: "W \<or> files s1 = files s" and t1: "trace s1 = trace s @ evs1"
      and p1: "list_all P evs1"
    by blast
  show "(W \<or> files s' = files s) \<and> (\<exists>evs. trace s' = trace s @ evs \<and> list_all P evs)"
  proof (cases r1)
    case (Inl e)
    with run m have "s' = s1" by (simp add: bind_def)
    with f1 t1 p1 show ?thesis by blast
  next
    case (Inr x)
    with run m have "f x s1 = (r, s')" by (simp add: bind_def)
    from effectsD [OF assms(2) this] obtain evs2
      where f2: "W \<or> files s' = files s1" and t2: "trace s' = trace s1 @ evs2"
        and p2: "list_all P evs2"
      by blast
    from f1 f2 have "W \<or> files s' = files s" by auto
    moreover from t1 t2 have "trace s' = trace s @ (evs1 @ evs2)" by simp
    moreover from p1 p2 have "list_all P (evs1 @ evs2)" by simp
    ultimately show ?thesis by blast
  qed
qed

lemma effects_try_except:
  assumes "effects W P m" and "\<And>e. effects W P (h e)"
  shows "effects W P (try_except m h)"
  unfolding effects_def
proof (intro allI impI)
  fix s r s'
  assume run: "try_except m h s = (r, s')"
  obtain r1 s1 where m: "m s = (r1, s1)" by (cases "m s")
  from effectsD [OF assms(1) m] obtain evs1
    where f1: "W \<or> files s1 = files s" and t1: "trace s1 = trace s @ evs1"
      and p1: "list_all P evs1"
    by blast
  show "(W \<or> files s' = files s) \<and> (\<exists>evs. trace s' = trace s @ evs \<and> list_all P evs)"
  proof (cases r1)
    case (Inr x)
    with run m have "s' = s1" by (simp add: try_except_def)
    with f1 t1 p1 show ?thesis by blast
  next
    case (Inl e)
    with run m have "h e s1 = (r, s')" by (simp add: try_except_def)
    from effectsD [OF assms(2) this] obtain evs2
      where f2: "W \<or> files s' = files s1" and t2: "trace s' = trace s1 @ evs2"
        and p2: "list_all P evs2"
      by blast
    from f1 f2 have "W \<or> files s' = files s" by auto
    moreover from t1 t2 have "trace s' = trace s @ (evs1 @ evs2)" by simp
    moreover from p1 p2 have "list_all P (evs1 @ evs2)" by simp
    ultimately show ?thesis by blast
  qed
qed

lemma effects_call: "P ev \<Longrightarrow> effects W P (call ev r)"
  unfolding call_def
  by (intro effects_bind effects_emit) (auto simp: effects_ret effects_raise split: sum.splits)

lemma effects_call_unit: "P ev \<Longrightarrow> effects W P (call_unit ev r)"
  by (simp add: call_unit_def effects_call)

lemma effects_state_if:
  "effects W P a \<Longrightarrow> effects W P b \<Longrightarrow> effects W P (\<lambda>s. if c s then a s else b s)"
  by (simp add: effects_def)

lemma effects_print_credentials_help:
  "(\<And>m. P (Print m)) \<Longrightarrow> effects W P print_credentials_help"
  unfolding print_credentials_help_def
  by (intro effects_bind effects_print) simp_all

lemma effects_upload_handler:
  "(\<And>m. P (Print m)) \<Longrightarrow> effects W P (upload_handler b e)"
  unfolding upload_handler_def
  by (cases e) (auto intro!: effects_bind effects_print effects_ret effects_print_credentials_help)

lemma effects_download_handler:
  "(\<And>m. P (Print m)) \<Longrightarrow> effects W P (download_handler b k e)"
  unfolding download_handler_def
  by (cases e) (auto intro!: effects_bind effects_print effects_ret effects_print_credentials_help)



lemma effects_if: "effects W P a \<Longrightarrow> effects W P b \<Longrightarrow> effects W P (if c then a else b)"
  by simp

lemma effects_mono:
  assumes "effects W P m" and "\<And>ev. P ev \<Longrightarrow> Q ev"
  shows "effects W Q m"
  unfolding effects_def
proof (intro allI impI)
  fix s r s'
  assume "m s = (r, s')"
  from effectsD [OF assms(1) this] obtain evs
    where f: "W \<or> files s' = files s" and t: "trace s' = trace s @ evs" and p: "list_all P evs"
    by blast
  from p assms(2) have "list_all Q evs" by (simp add: list_all_iff)
  with f t show "(W \<or> files s' = files s) \<and> (\<exists>evs. trace s' = trace s @ evs \<and> list_all Q evs)"
    by blast
qed

lemma effects_download_probe:
  "effects True (\<lambda>ev. is_print ev \<or> is_probe ev) (download_probe E b k fp)"
  unfolding download_probe_def
  apply (intro effects_try_except effects_bind effects_print effects_ret effects_call)
    apply simp_all
  subgoal for e
    by (cases e) (auto intro!: effects_bind effects_print effects_ret effects_raise)
  done

lemma effects_download_body:
  "effects True (\<lambda>ev. is_print ev \<or> is_client ev \<or> is_probe ev \<or> is_mkdir ev \<or> is_download ev)
     (download_body E b k fp ep kid sec region)"
proof -
  let ?P = "\<lambda>ev. is_print ev \<or> is_client ev \<or> is_probe ev \<or> is_mkdir ev \<or> is_download ev"
  have probe: "effects True ?P (download_probe E b k fp)"
    by (rule effects_mono [OF effects_download_probe]) auto
  have size: "effects True ?P (\<lambda>s. if isfile s fp
                 then bind (getsize fp) (\<lambda>local_size.
                        print (file_folder @ '' Local file size: '' @ str_nat local_size
                               @ '' bytes'')) s
                 else ret () s)"
    by (intro effects_state_if effects_bind effects_getsize effects_print effects_ret) simp
  show ?thesis
    unfolding download_body_def
    by (intro effects_bind effects_call_unit effects_call probe size effects_if effects_ret
        effects_write_file effects_print) simp_all
qed

lemma effects_download_file_from_s3:
  "effects True (\<lambda>ev. is_print ev \<or> is_client ev \<or> is_probe ev \<or> is_mkdir ev \<or> is_download ev)
     (download_file_from_s3 E b k fp ep kid sec region)"
  unfolding download_file_from_s3_def
  by (intro effects_bind effects_try_except effects_download_body effects_download_handler)
     (auto simp: effects_ret effects_raise split: option.splits)

section \<open>Paths through upload\<close>


lemma upload_handler_False: "fst (upload_handler b e s) = Inr False"
  by (cases e) (simp_all add: upload_handler_def)

lemma download_handler_False: "fst (download_handler b k e s) = Inr False"
  by (cases e) (simp_all add: download_handler_def)

lemma upload_body_client_fails:
  "s3_client E ep kid sec region = Some e \<Longrightarrow>
   upload_body E fp b k ep kid sec region s =
     (Inl e, s\<lparr>trace := trace s @ [Boto3Client ep kid sec region]\<rparr>)"
  by (simp add: upload_body_def)

lemma upload_body_transfer_fails:
  "s3_client E ep kid sec region = None \<Longrightarrow> files s fp = Some c \<Longrightarrow>
   s3_upload_file E fp b k = Some e \<Longrightarrow>
   upload_body E fp b k ep kid sec region s =
     (Inl e, s\<lparr>trace := trace s @ [Boto3Client ep kid sec region,
        Print (''Uploading '' @ quoted fp @ '' ('' @ str_nat (length c)
                  @ '' bytes) to bucket '' @ quoted (py_str b) @ '' as ''
                  @ quoted k @ ''...''), UploadFile fp b k]\<rparr>)"
  by (simp add: upload_body_def)

lemma upload_body_ok:
  "s3_client E ep kid sec region = None \<Longrightarrow> files s fp = Some c \<Longrightarrow>
   s3_upload_file E fp b k = None \<Longrightarrow>
   upload_body E fp b k ep kid sec region s =
     (Inr True, s\<lparr>trace := trace s @ [Boto3Client ep kid sec region,
        Print (''Uploading '' @ quoted fp @ '' ('' @ str_nat (length c)
                  @ '' bytes) to bucket '' @ quoted (py_str b) @ '' as ''
                  @ quoted k @ ''...''), UploadFile fp b k,
        Print (check_mark @ '' Successfully uploaded '' @ quoted k
                  @ '' to bucket '' @ quoted (py_str b)),
        Print (file_folder @ '' File URL: '' @
             (case ep of
                None \<Rightarrow> ''https://'' @ py_str b @ ''.s3.'' @ region
                          @ ''.amazonaws.com/'' @ k
              | Some e \<Rightarrow> e @ ''/'' @ py_str b @ ''/'' @ k))]\<rparr>)"
  by (simp add: upload_body_def)

lemma upload_never_raises:
  "\<exists>uploaded s'. upload_file_to_s3 E fp b ok ep kid sec region s = (Inr uploaded, s')"
proof (cases "isfile s fp")
  case False
  then show ?thesis by (auto simp: upload_file_to_s3_def)
next
  case True
  define k where "k = (case ok of None \<Rightarrow> path_name fp | Some k \<Rightarrow> k)"
  obtain r s1 where body: "upload_body E fp b k ep kid sec region s = (r, s1)"
    by (cases "upload_body E fp b k ep kid sec region s")
  show ?thesis
  proof (cases r)
    case (Inl e)
    obtain r2 s2 where h: "upload_handler b e s1 = (r2, s2)"
      by (cases "upload_handler b e s1")
    with upload_handler_False [of b e s1] have "r2 = Inr False" by simp
    with h Inl body True show ?thesis
      by (auto simp: upload_file_to_s3_def k_def try_except_def)
  next
    case (Inr x)
    with body True show ?thesis
      by (auto simp: upload_file_to_s3_def k_def try_except_def)
  qed
qed

lemma upload_success:
  assumes run: "upload_file_to_s3 E fp b ok ep kid sec region s = (Inr True, s')"
    and k_def: "k = (case ok of None \<Rightarrow> path_name fp | Some k \<Rightarrow> k)"
  shows "\<exists>c. files s fp = Some c \<and>
     s' = s\<lparr>trace := trace s @ [Boto3Client ep kid sec region,
        Print (''Uploading '' @ quoted fp @ '' ('' @ str_nat (length c)
                  @ '' bytes) to bucket '' @ quoted (py_str b) @ '' as ''
                  @ quoted k @ ''...''), UploadFile fp b k,
        Print (check_mark @ '' Successfully uploaded '' @ quoted k
                  @ '' to bucket '' @ quoted (py_str b)),
        Print (file_folder @ '' File URL: '' @
             (case ep of
                None \<Rightarrow> ''https://'' @ py_str b @ ''.s3.'' @ region
                          @ ''.amazonaws.com/'' @ k
              | Some e \<Rightarrow> e @ ''/'' @ py_str b @ ''/'' @ k))]\<rparr>"
proof -
  have isf: "isfile s fp"
  proof (rule ccontr)
    assume "\<not> isfile s fp"
    with run show False by (simp add: upload_file_to_s3_def)
  qed
  from isf obtain c where c: "files s fp = Some c" by (auto simp: isfile_def)
  from run isf have body: "try_except (upload_body E fp b k ep kid sec region) (upload_handler b) s
      = (Inr True, s')"
    by (simp add: upload_file_to_s3_def k_def)
  have failed: False if "upload_body E fp b k ep kid sec region s = (Inl e, s1)" for e s1
  proof -
    from that body have "upload_handler b e s1 = (Inr True, s')" by (simp add: try_except_def)
    with upload_handler_False [of b e s1] show False by simp
  qed
  have client: "s3_client E ep kid sec region = None"
  proof (cases "s3_client E ep kid sec region")
    case (Some e)
    from failed [OF upload_body_client_fails [OF Some]] show ?thesis ..
  qed simp
  have transfer: "s3_upload_file E fp b k = None"
  proof (cases "s3_upload_file E fp b k")
    case (Some e)
    from failed [OF upload_body_transfer_fails [OF client c Some]] show ?thesis ..
  qed simp
  from body upload_body_ok [OF client c transfer] c show ?thesis
    by (simp add: try_except_def)
qed


section \<open>Paths through download\<close>

lemma download_probe_found:
  "s3_head_object E b k = Inr n \<Longrightarrow>
   download_probe E b k fp s =
     (Inr True, s\<lparr>trace := trace s @ [HeadObject b k,
        Print (''Downloading '' @ quoted (py_str k) @ '' ('' @ str_nat n
               @ '' bytes) from bucket '' @ quoted (py_str b) @ '' to ''
               @ quoted fp @ ''...'')]\<rparr>)"
  by (simp add: download_probe_def try_except_def)

lemma download_probe_not_found:
  "s3_head_object E b k = Inl (ClientError ''404'' m) \<Longrightarrow>
   download_probe E b k fp s =
     (Inr False, s\<lparr>trace := trace s @ [HeadObject b k,
        Print (cross_mark @ '' Error: Object '' @ quoted (py_str k)
               @ '' not found in bucket '' @ quoted (py_str b) @ ''.'')]\<rparr>)"
  by (simp add: download_probe_def try_except_def)

lemma download_probe_client_error:
  "s3_head_object E b k = Inl (ClientError code m) \<Longrightarrow> code \<noteq> ''404'' \<Longrightarrow>
   download_probe E b k fp s =
     (Inl (Exception ''Error checking object existence''),
      s\<lparr>trace := trace s @ [HeadObject b k]\<rparr>)"
  by (simp add: download_probe_def try_except_def)

lemma download_probe_other_error:
  "s3_head_object E b k = Inl e \<Longrightarrow> \<not> is_client_error e \<Longrightarrow>
   download_probe E b k fp s = (Inl e, s\<lparr>trace := trace s @ [HeadObject b k]\<rparr>)"
  by (cases e) (simp_all add: download_probe_def try_except_def)

lemma download_handler_no_credentials:
  "download_handler b k (NoCredentialsError m) s =
     (Inr False, s\<lparr>trace := trace s @ map Print credentials_help\<rparr>)"
  by (simp add: download_handler_def)

lemma upload_handler_no_credentials:
  "upload_handler b (NoCredentialsError m) s =
     (Inr False, s\<lparr>trace := trace s @ map Print credentials_help\<rparr>)"
  by (simp add: upload_handler_def)

lemma download_handler_print:
  "\<exists>msg. download_handler b k e s = (Inr False, s\<lparr>trace := trace s @ [Print msg]\<rparr>)
     \<or> download_handler b k e s = (Inr False, s\<lparr>trace := trace s @ map Print credentials_help\<rparr>)"
  by (cases e) (auto simp: download_handler_def)

lemma download_never_raises:
  "\<exists>downloaded s'.
     download_file_from_s3 E b k (Some fp) ep kid sec region s = (Inr downloaded, s')"
proof -
  obtain r s1 where body: "download_body E b k fp ep kid sec region s = (r, s1)"
    by (cases "download_body E b k fp ep kid sec region s")
  show ?thesis
  proof (cases r)
    case (Inl e)
    obtain r2 s2 where h: "download_handler b k e s1 = (r2, s2)"
      by (cases "download_handler b k e s1")
    with download_handler_False [of b k e s1] have "r2 = Inr False" by simp
    with h Inl body show ?thesis
      by (auto simp: download_file_from_s3_def try_except_def)
  next
    case (Inr x)
    with body show ?thesis
      by (auto simp: download_file_from_s3_def try_except_def)
  qed
qed


section \<open>Base names\<close>

lemma components_not_Nil: "components p \<noteq> []"
  by (induction p) (auto split: list.splits)

lemma components_no_slash: "CHR ''/'' \<notin> set n \<Longrightarrow> components n = [n]"
  by (induction n) auto

lemma components_append_slash:
  "components (d @ CHR ''/'' # n) = components d @ components n"
proof (induction d)
  case Nil
  then show ?case by simp
next
  case (Cons c d)
  then show ?case
    using components_not_Nil [of d] by (auto split: list.splits)
qed

lemma path_name_basename:
  assumes "CHR ''/'' \<notin> set n" and "n \<noteq> []" and "n \<noteq> ''.''"
  shows "path_name (d @ ''/'' @ n) = n"
proof -
  let ?keep = "\<lambda>c. c \<noteq> [] \<and> c \<noteq> ''.''"
  from assms have "filter ?keep (components (d @ ''/'' @ n)) = filter ?keep (components d) @ [n]"
    by (simp add: components_append_slash components_no_slash)
  moreover have "path_name p = (if filter ?keep (components p) = [] then []
       else last (filter ?keep (components p)))" for p
    by (simp add: path_name_def split: list.splits)
  ultimately show ?thesis by simp
qed

text \<open>The key the script looks up is rendered between apostrophes.\<close>

lemma py_repr_identifier: "py_repr ''PassengerId'' = quoted ''PassengerId''"
  by code_simp

section \<open>Whole calls\<close>

lemma bind_state_if [simp]:
  "bind (\<lambda>s. if c s then a s else b s) f s = (if c s then bind a f s else bind b f s)"
  by (simp add: bind_def)

lemma bind_fail: "m s = (Inl e, s1) \<Longrightarrow> bind m f s = (Inl e, s1)"
  by (simp add: bind_def)

lemma upload_run_ok:
  assumes "files s fp = Some c"
    and "s3_client E ep kid sec region = None"
    and "s3_upload_file E fp b k = None"
    and "k = (case ok of None \<Rightarrow> path_name fp | Some k \<Rightarrow> k)"
  shows "upload_file_to_s3 E fp b ok ep kid sec region s =
     (Inr True, s\<lparr>trace := trace s @ [Boto3Client ep kid sec region,
        Print (''Uploading '' @ quoted fp @ '' ('' @ str_nat (length c)
                  @ '' bytes) to bucket '' @ quoted (py_str b) @ '' as ''
                  @ quoted k @ ''...''), UploadFile fp b k,
        Print (check_mark @ '' Successfully uploaded '' @ quoted k
                  @ '' to bucket '' @ quoted (py_str b)),
        Print (file_folder @ '' File URL: '' @
             (case ep of
                None \<Rightarrow> ''https://'' @ py_str b @ ''.s3.'' @ region
                          @ ''.amazonaws.com/'' @ k
              | Some e \<Rightarrow> e @ ''/'' @ py_str b @ ''/'' @ k))]\<rparr>)"
  using assms upload_body_ok [OF assms(2,1,3)]
  by (simp add: upload_file_to_s3_def isfile_def try_except_def)

lemma upload_run_no_credentials:
  assumes "files s fp = Some c"
    and "k = (case ok of None \<Rightarrow> path_name fp | Some k \<Rightarrow> k)"
    and "s3_client E ep kid sec region = Some (NoCredentialsError m)
         \<or> s3_client E ep kid sec region = None
           \<and> s3_upload_file E fp b k = Some (NoCredentialsError m)"
  shows "\<exists>evs. upload_file_to_s3 E fp b ok ep kid sec region s =
           (Inr False, s\<lparr>trace := trace s @ evs @ map Print credentials_help\<rparr>)"
proof -
  from assms(3) obtain evs where
    "upload_body E fp b k ep kid sec region s =
       (Inl (NoCredentialsError m), s\<lparr>trace := trace s @ evs\<rparr>)"
    using upload_body_client_fails [of E ep kid sec region "NoCredentialsError m" fp b k s]
      upload_body_transfer_fails [OF _ assms(1), of E ep kid sec region b k "NoCredentialsError m"]
    by blast
  with assms(1,2) have "upload_file_to_s3 E fp b ok ep kid sec region s =
           (Inr False, s\<lparr>trace := trace s @ evs @ map Print credentials_help\<rparr>)"
    by (simp add: upload_file_to_s3_def isfile_def try_except_def upload_handler_no_credentials)
  then show ?thesis ..
qed

lemma download_run_client_fails:
  assumes "s3_client E ep kid sec region = Some e"
  shows "download_body E b k fp ep kid sec region s =
           (Inl e, s\<lparr>trace := trace s @ [Boto3Client ep kid sec region]\<rparr>)"
  using assms by (simp add: download_body_def)

lemma download_body_probe:
  assumes "s3_client E ep kid sec region = None"
    and "download_probe E b k fp (s\<lparr>trace := trace s @ [Boto3Client ep kid sec region]\<rparr>) = (r, s1)"
  shows "r = Inl e \<Longrightarrow> download_body E b k fp ep kid sec region s = (Inl e, s1)"
    and "r = Inr False \<Longrightarrow> download_body E b k fp ep kid sec region s = (Inr False, s1)"
proof -
  assume "r = Inl e"
  with assms(2) have "bind (download_probe E b k fp) f
      (s\<lparr>trace := trace s @ [Boto3Client ep kid sec region]\<rparr>) = (Inl e, s1)" for f :: "bool \<Rightarrow> bool prog"
    by (simp add: bind_fail)
  with assms(1) show "download_body E b k fp ep kid sec region s = (Inl e, s1)"
    by (simp add: download_body_def)
next
  assume "r = Inr False"
  with assms(2) have "bind (download_probe E b k fp) f
      (s\<lparr>trace := trace s @ [Boto3Client ep kid sec region]\<rparr>) = f False s1" for f :: "bool \<Rightarrow> bool prog"
    by (simp add: bind_run)
  with assms(1) show "download_body E b k fp ep kid sec region s = (Inr False, s1)"
    by (simp add: download_body_def)
qed

lemma download_body_not_found:
  assumes "s3_client E ep kid sec region = None"
    and "s3_head_object E b k = Inl (ClientError ''404'' m)"
  shows "download_body E b k fp ep kid sec region s =
     (Inr False, s\<lparr>trace := trace s @ [Boto3Client ep kid sec region, HeadObject b k,
        Print (cross_mark @ '' Error: Object '' @ quoted (py_str k)
               @ '' not found in bucket '' @ quoted (py_str b) @ ''.'')]\<rparr>)"
  using download_body_probe(2) [OF assms(1) download_probe_not_found [OF assms(2)]]
  by simp

lemma download_body_client_error:
  assumes "s3_client E ep kid sec region = None"
    and "s3_head_object E b k = Inl (ClientError code m)" and "code \<noteq> ''404''"
  shows "download_body E b k fp ep kid sec region s =
     (Inl (Exception ''Error checking object existence''),
      s\<lparr>trace := trace s @ [Boto3Client ep kid sec region, HeadObject b k]\<rparr>)"
  using download_body_probe(1) [OF assms(1) download_probe_client_error [OF assms(2,3)]]
  by simp

lemma download_body_other_error:
  assumes "s3_client E ep kid sec region = None"
    and "s3_head_object E b k = Inl e" and "\<not> is_client_error e"
  shows "download_body E b k fp ep kid sec region s =
     (Inl e, s\<lparr>trace := trace s @ [Boto3Client ep kid sec region, HeadObject b k]\<rparr>)"
  using download_body_probe(1) [OF assms(1) download_probe_other_error [OF assms(2,3)]]
  by simp

lemma download_body_transfer_fails:
  assumes "s3_client E ep kid sec region = None"
    and "s3_head_object E b k = Inr n"
    and "mkdir E fp = None"
    and "s3_download_file E b k fp = Inl e"
  shows "download_body E b k fp ep kid sec region s =
     (Inl e, s\<lparr>trace := trace s @ [Boto3Client ep kid sec region, HeadObject b k,
        Print (''Downloading '' @ quoted (py_str k) @ '' ('' @ str_nat n
               @ '' bytes) from bucket '' @ quoted (py_str b) @ '' to ''
               @ quoted fp @ ''...''),
        MkdirParents fp, DownloadFile b k fp]\<rparr>)"
  using assms
  by (simp add: download_body_def bind_run [OF download_probe_found [OF assms(2)]])

lemma download_body_ok:
  assumes "s3_client E ep kid sec region = None"
    and "s3_head_object E b k = Inr n"
    and "mkdir E fp = None"
    and "s3_download_file E b k fp = Inr content"
  shows "download_body E b k fp ep kid sec region s =
     (Inr True, s\<lparr>files := (files s)(fp \<mapsto> content),
        trace := trace s @ [Boto3Client ep kid sec region, HeadObject b k,
        Print (''Downloading '' @ quoted (py_str k) @ '' ('' @ str_nat n
               @ '' bytes) from bucket '' @ quoted (py_str b) @ '' to ''
               @ quoted fp @ ''...''),
        MkdirParents fp, DownloadFile b k fp,
        Print (check_mark @ '' Successfully downloaded '' @ quoted (py_str k)
               @ '' to '' @ quoted fp),
        Print (file_folder @ '' Local file size: '' @ str_nat (length content)
               @ '' bytes'')]\<rparr>)"
  using assms
  by (simp add: download_body_def bind_run [OF download_probe_found [OF assms(2)]] isfile_def)

text \<open>The local path the download writes to, when there is one.\<close>

lemma download_file_from_s3_path:
  assumes "file_path \<noteq> None \<or> object_key \<noteq> None"
  obtains p where
    "download_file_from_s3 E b object_key file_path ep kid sec region =
       try_except (download_body E b object_key p ep kid sec region)
         (download_handler b object_key)"
proof (cases file_path)
  case (Some p)
  have "download_file_from_s3 E b object_key file_path ep kid sec region =
       try_except (download_body E b object_key p ep kid sec region)
         (download_handler b object_key)"
    by (rule ext) (simp add: download_file_from_s3_def Some)
  then show ?thesis by (rule that)
next
  case None
  with assms obtain k where k: "object_key = Some k" by auto
  have "download_file_from_s3 E b object_key file_path ep kid sec region =
       try_except (download_body E b object_key (path_name k) ep kid sec region)
         (download_handler b object_key)"
    by (rule ext) (simp add: download_file_from_s3_def None k)
  then show ?thesis by (rule that)
qed

lemma download_run_not_found:
  assumes "file_path \<noteq> None \<or> object_key \<noteq> None"
    and "s3_client E ep kid sec region = None"
    and "s3_head_object E b object_key = Inl (ClientError ''404'' m)"
  shows "download_file_from_s3 E b object_key file_path ep kid sec region s =
     (Inr False, s\<lparr>trace := trace s @ [Boto3Client ep kid sec region, HeadObject b object_key,
        Print (cross_mark @ '' Error: Object '' @ quoted (py_str object_key)
               @ '' not found in bucket '' @ quoted (py_str b) @ ''.'')]\<rparr>)"
proof -
  from assms(1) obtain p where
    "download_file_from_s3 E b object_key file_path ep kid sec region =
       try_except (download_body E b object_key p ep kid sec region)
         (download_handler b object_key)"
    by (rule download_file_from_s3_path)
  then show ?thesis
    by (simp add: try_except_def download_body_not_found [OF assms(2,3)])
qed

lemma download_run_probe_error:
  assumes "file_path \<noteq> None \<or> object_key \<noteq> None"
    and "s3_client E ep kid sec region = None"
    and "s3_head_object E b object_key = Inl e"
    and "\<not> is_not_found e"
  shows "\<exists>evs. download_file_from_s3 E b object_key file_path ep kid sec region s =
           (Inr False, s\<lparr>trace := trace s @
              Boto3Client ep kid sec region # HeadObject b object_key # evs\<rparr>)
         \<and> list_all is_print evs
         \<and> (is_client_error e \<longrightarrow>
              evs = [Print (cross_mark @ '' Unexpected error: Error checking object existence'')])"
proof -
  from assms(1) obtain p where dl:
    "download_file_from_s3 E b object_key file_path ep kid sec region =
       try_except (download_body E b object_key p ep kid sec region)
         (download_handler b object_key)"
    by (rule download_file_from_s3_path)
  show ?thesis
  proof (cases "is_client_error e")
    case True
    then obtain code m where e: "e = ClientError code m" by (cases e) auto
    with assms(4) have "code \<noteq> ''404''" by simp
    from download_body_client_error [OF assms(2) assms(3) [unfolded e] this]
    have "download_file_from_s3 E b object_key file_path ep kid sec region s =
           (Inr False, s\<lparr>trace := trace s @
              Boto3Client ep kid sec region # HeadObject b object_key #
              [Print (cross_mark @ '' Unexpected error: Error checking object existence'')]\<rparr>)"
      by (simp add: dl try_except_def download_handler_def)
    then show ?thesis
      by (intro exI [of _ "[Print (cross_mark @ '' Unexpected error: Error checking object existence'')]"])
        simp
  next
    case False
    from download_body_other_error [OF assms(2,3) False]
    have body: "download_body E b object_key p ep kid sec region s =
       (Inl e, s\<lparr>trace := trace s @ [Boto3Client ep kid sec region, HeadObject b object_key]\<rparr>)" .
    let ?s1 = "s\<lparr>trace := trace s @ [Boto3Client ep kid sec region, HeadObject b object_key]\<rparr>"
    from download_handler_print [of b object_key e ?s1]
    obtain evs where "download_handler b object_key e ?s1 =
           (Inr False, ?s1\<lparr>trace := trace ?s1 @ evs\<rparr>)" and "list_all is_print evs"
      by (auto simp: list_all_iff)
    with body False show ?thesis
      by (intro exI [of _ evs]) (simp add: dl try_except_def)
  qed
qed

lemma download_run_no_credentials:
  assumes "(case file_path of Some p \<Rightarrow> Some p | None \<Rightarrow> map_option path_name k) = Some fp"
    and "s3_client E ep kid sec region = Some (NoCredentialsError m)
         \<or> s3_client E ep kid sec region = None
           \<and> (s3_head_object E b k = Inl (NoCredentialsError m)
              \<or> (\<exists>n. s3_head_object E b k = Inr n) \<and> mkdir E fp = None
                \<and> s3_download_file E b k fp = Inl (NoCredentialsError m))"
  shows "\<exists>evs. download_file_from_s3 E b k file_path ep kid sec region s =
           (Inr False, s\<lparr>trace := trace s @ evs @ map Print credentials_help\<rparr>)"
proof -
  from assms(1) have dl: "download_file_from_s3 E b k file_path ep kid sec region s =
       try_except (download_body E b k fp ep kid sec region) (download_handler b k) s"
    by (auto simp: download_file_from_s3_def split: option.splits)
  from assms(2) obtain evs where
    "download_body E b k fp ep kid sec region s =
       (Inl (NoCredentialsError m), s\<lparr>trace := trace s @ evs\<rparr>)"
    using download_run_client_fails [of E ep kid sec region "NoCredentialsError m" b k fp s]
      download_body_other_error [of E ep kid sec region b k "NoCredentialsError m" fp s]
      download_body_transfer_fails [of E ep kid sec region b k _ fp "NoCredentialsError m" s]
    by auto
  then have "download_file_from_s3 E b k file_path ep kid sec region s =
           (Inr False, s\<lparr>trace := trace s @ evs @ map Print credentials_help\<rparr>)"
    by (simp add: dl try_except_def download_handler_no_credentials)
  then show ?thesis ..
qed

lemma effects_upload_exact:
  "effects False (\<lambda>ev. is_print ev \<or> is_client ev
       \<or> ev = UploadFile fp b (case ok of None \<Rightarrow> path_name fp | Some k \<Rightarrow> k))
     (upload_file_to_s3 E fp b ok ep kid sec region)"
proof -
  let ?k = "case ok of None \<Rightarrow> path_name fp | Some k \<Rightarrow> k"
  let ?P = "\<lambda>ev. is_print ev \<or> is_client ev \<or> ev = UploadFile fp b ?k"
  let ?a = "bind (print (''Error: File '' @ quoted fp @ '' not found.'')) (\<lambda>_. ret False)"
  let ?b = "try_except (upload_body E fp b ?k ep kid sec region) (upload_handler b)"
  have a: "effects False ?P ?a"
    by (intro effects_bind effects_print effects_ret) simp
  have "effects False ?P (upload_body E fp b ?k ep kid sec region)"
    unfolding upload_body_def
    by (intro effects_bind effects_print effects_ret effects_call_unit effects_getsize) simp_all
  then have b: "effects False ?P ?b"
    by (intro effects_try_except effects_upload_handler) simp_all
  have "upload_file_to_s3 E fp b ok ep kid sec region = (\<lambda>s. if \<not> isfile s fp then ?a s else ?b s)"
    by (rule ext) (simp add: upload_file_to_s3_def)
  with effects_state_if [OF a b, of "\<lambda>s. \<not> isfile s fp"] show ?thesis by simp
qed

section \<open>The script\<close>

lemma pd_read_csv_run:
  "files s p = Some content \<Longrightarrow> read_csv E content = Inr df \<Longrightarrow>
   pd_read_csv E p s = (Inr df, s\<lparr>trace := trace s @ [ReadCsv p]\<rparr>)"
  by (simp add: pd_read_csv_def bind_def emit_def)

lemma main_download_effects:
  assumes "main_download E s = (r, s1)"
  shows "\<exists>evs. trace s1 = trace s @ evs
           \<and> list_all (\<lambda>ev. \<not> is_prediction ev \<and> \<not> is_upload ev \<and> \<not> is_to_csv ev) evs"
proof -
  have "effects True (\<lambda>ev. \<not> is_prediction ev \<and> \<not> is_upload ev \<and> \<not> is_to_csv ev)
          (main_download E)"
    unfolding main_download_def
    by (rule effects_mono [OF effects_download_file_from_s3]) (case_tac ev; simp)
  from effectsD [OF this assms] show ?thesis by simp
qed

lemma main_download_run_not_found:
  assumes "s3_client E (getenv E ''S3_ENDPOINT_URL'') (getenv E ''AWS_ACCESS_KEY_ID'')
             (getenv E ''AWS_SECRET_ACCESS_KEY'')
             (getenv_default E ''AWS_DEFAULT_REGION'' ''us-east-1'') = None"
    and "s3_head_object E (getenv E ''S3_BUCKET_NAME'') (getenv E ''S3_OBJECT_KEY'')
           = Inl (ClientError ''404'' m)"
  shows "main_download E s =
     (Inr False, s\<lparr>trace := trace s @
        [Boto3Client (getenv E ''S3_ENDPOINT_URL'') (getenv E ''AWS_ACCESS_KEY_ID'')
             (getenv E ''AWS_SECRET_ACCESS_KEY'')
             (getenv_default E ''AWS_DEFAULT_REGION'' ''us-east-1''),
         HeadObject (getenv E ''S3_BUCKET_NAME'') (getenv E ''S3_OBJECT_KEY''),
         Print (cross_mark @ '' Error: Object '' @ quoted (py_str (getenv E ''S3_OBJECT_KEY''))
               @ '' not found in bucket '' @ quoted (py_str (getenv E ''S3_BUCKET_NAME''))
               @ ''.'')]\<rparr>)"
  unfolding main_download_def
  by (rule download_run_not_found [OF _ assms]) simp

lemma main_download_run_ok:
  assumes "s3_client E (getenv E ''S3_ENDPOINT_URL'') (getenv E ''AWS_ACCESS_KEY_ID'')
             (getenv E ''AWS_SECRET_ACCESS_KEY'')
             (getenv_default E ''AWS_DEFAULT_REGION'' ''us-east-1'') = None"
    and "s3_head_object E (getenv E ''S3_BUCKET_NAME'') (getenv E ''S3_OBJECT_KEY'') = Inr n"
    and "mkdir E ''/tmp/test.csv'' = None"
    and "s3_download_file E (getenv E ''S3_BUCKET_NAME'') (getenv E ''S3_OBJECT_KEY'')
           ''/tmp/test.csv'' = Inr content"
  shows "main_download E s =
     (Inr True, s\<lparr>files := (files s)(''/tmp/test.csv'' \<mapsto> content),
        trace := trace s @
        [Boto3Client (getenv E ''S3_ENDPOINT_URL'') (getenv E ''AWS_ACCESS_KEY_ID'')
             (getenv E ''AWS_SECRET_ACCESS_KEY'')
             (getenv_default E ''AWS_DEFAULT_REGION'' ''us-east-1''),
         HeadObject (getenv E ''S3_BUCKET_NAME'') (getenv E ''S3_OBJECT_KEY''),
         Print (''Downloading '' @ quoted (py_str (getenv E ''S3_OBJECT_KEY'')) @ '' (''
               @ str_nat n @ '' bytes) from bucket ''
               @ quoted (py_str (getenv E ''S3_BUCKET_NAME'')) @ '' to ''
               @ quoted ''/tmp/test.csv'' @ ''...''),
         MkdirParents ''/tmp/test.csv'',
         DownloadFile (getenv E ''S3_BUCKET_NAME'') (getenv E ''S3_OBJECT_KEY'') ''/tmp/test.csv'',
         Print (check_mark @ '' Successfully downloaded ''
               @ quoted (py_str (getenv E ''S3_OBJECT_KEY'')) @ '' to ''
               @ quoted ''/tmp/test.csv''),
         Print (file_folder @ '' Local file size: '' @ str_nat (length content)
               @ '' bytes'')]\<rparr>)"
  by (simp add: main_download_def download_file_from_s3_def try_except_def
      download_body_ok [OF assms])


section \<open>Properties of the transfer client\<close>

text \<open>
  C4. With no regular file at the local path, the upload returns \<open>False\<close>; its only
  effect is the printed error: no client is constructed and no request is made.
\<close>

theorem upload_missing_file:
  assumes "\<not> isfile s file_path"
  shows "upload_file_to_s3 E file_path bucket_name object_key endpoint_url aws_access_key_id
           aws_secret_access_key region s =
         (Inr False,
          s\<lparr>trace := trace s @ [Print (''Error: File '' @ quoted file_path @ '' not found.'')]\<rparr>)"
  using assms by (simp add: upload_file_to_s3_def)

theorem upload_missing_file_witness:
  "\<not> isfile demo_state ''/tmp/predictions.csv''
   \<and> upload_file_to_s3 demo_env ''/tmp/predictions.csv'' (Some ''titanic'') None None None None
         ''us-east-1'' demo_state =
       (Inr False,
        demo_state\<lparr>trace := trace demo_state @
          [Print (''Error: File '' @ quoted ''/tmp/predictions.csv'' @ '' not found.'')]\<rparr>)"
proof -
  have h: "\<not> isfile demo_state ''/tmp/predictions.csv''"
    by (simp add: isfile_def demo_state_def)
  from upload_missing_file [OF h] h show ?thesis by blast
qed

text \<open>
  C5. A successful upload with no object key uses the base name of the local path as the
  remote key, and the URL it reports is built from that key: the public host of the
  bucket and region without an endpoint, the endpoint followed by bucket and key with one.
  The key is \<open>Path(file_path).name\<close>, which for a path \<open>dir/name\<close> is \<open>name\<close>.
\<close>

theorem upload_default_key:
  assumes "fst (upload_file_to_s3 E file_path bucket_name None endpoint_url aws_access_key_id
             aws_secret_access_key region s) = Inr True"
  shows "(\<exists>file_size.
    trace (snd (upload_file_to_s3 E file_path bucket_name None endpoint_url aws_access_key_id
             aws_secret_access_key region s)) = trace s @
      [Boto3Client endpoint_url aws_access_key_id aws_secret_access_key region,
       Print (''Uploading '' @ quoted file_path @ '' ('' @ str_nat file_size
              @ '' bytes) to bucket '' @ quoted (py_str bucket_name) @ '' as ''
              @ quoted (path_name file_path) @ ''...''),
       UploadFile file_path bucket_name (path_name file_path),
       Print (check_mark @ '' Successfully uploaded '' @ quoted (path_name file_path)
              @ '' to bucket '' @ quoted (py_str bucket_name)),
       Print (file_folder @ '' File URL: '' @
         (case endpoint_url of
            None \<Rightarrow> ''https://'' @ py_str bucket_name @ ''.s3.'' @ region
                      @ ''.amazonaws.com/'' @ path_name file_path
          | Some endpoint \<Rightarrow> endpoint @ ''/'' @ py_str bucket_name @ ''/''
                      @ path_name file_path))])
    \<and> (\<forall>dir name. file_path = dir @ ''/'' @ name \<longrightarrow> CHR ''/'' \<notin> set name \<longrightarrow>
           name \<noteq> [] \<longrightarrow> name \<noteq> ''.'' \<longrightarrow> path_name file_path = name)"
proof (rule conjI)
  show "\<forall>dir name. file_path = dir @ ''/'' @ name \<longrightarrow> CHR ''/'' \<notin> set name \<longrightarrow>
           name \<noteq> [] \<longrightarrow> name \<noteq> ''.'' \<longrightarrow> path_name file_path = name"
    using path_name_basename by blast
next
  obtain s' where run: "upload_file_to_s3 E file_path bucket_name None endpoint_url
      aws_access_key_id aws_secret_access_key region s = (Inr True, s')"
    using assms
    by (cases "upload_file_to_s3 E file_path bucket_name None endpoint_url
      aws_access_key_id aws_secret_access_key region s") simp
  have "path_name file_path = (case None of None \<Rightarrow> path_name file_path | Some k \<Rightarrow> k)"
    by simp
  from upload_success [OF run this] obtain c where
    "files s file_path = Some c \<and>
     s' = s\<lparr>trace := trace s @
      [Boto3Client endpoint_url aws_access_key_id aws_secret_access_key region,
       Print (''Uploading '' @ quoted file_path @ '' ('' @ str_nat (length c)
              @ '' bytes) to bucket '' @ quoted (py_str bucket_name) @ '' as ''
              @ quoted (path_name file_path) @ ''...''),
       UploadFile file_path bucket_name (path_name file_path),
       Print (check_mark @ '' Successfully uploaded '' @ quoted (path_name file_path)
              @ '' to bucket '' @ quoted (py_str bucket_name)),
       Print (file_folder @ '' File URL: '' @
         (case endpoint_url of
            None \<Rightarrow> ''https://'' @ py_str bucket_name @ ''.s3.'' @ region
                      @ ''.amazonaws.com/'' @ path_name file_path
          | Some endpoint \<Rightarrow> endpoint @ ''/'' @ py_str bucket_name @ ''/''
                      @ path_name file_path))]\<rparr>" ..
  with run show "\<exists>file_size.
    trace (snd (upload_file_to_s3 E file_path bucket_name None endpoint_url aws_access_key_id
             aws_secret_access_key region s)) = trace s @
      [Boto3Client endpoint_url aws_access_key_id aws_secret_access_key region,
       Print (''Uploading '' @ quoted file_path @ '' ('' @ str_nat file_size
              @ '' bytes) to bucket '' @ quoted (py_str bucket_name) @ '' as ''
              @ quoted (path_name file_path) @ ''...''),
       UploadFile file_path bucket_name (path_name file_path),
       Print (check_mark @ '' Successfully uploaded '' @ quoted (path_name file_path)
              @ '' to bucket '' @ quoted (py_str bucket_name)),
       Print (file_folder @ '' File URL: '' @
         (case endpoint_url of
            None \<Rightarrow> ''https://'' @ py_str bucket_name @ ''.s3.'' @ region
                      @ ''.amazonaws.com/'' @ path_name file_path
          | Some endpoint \<Rightarrow> endpoint @ ''/'' @ py_str bucket_name @ ''/''
                      @ path_name file_path))]"
    by (intro exI [of _ "length c"]) simp
qed

theorem upload_default_key_witness:
  "fst (upload_file_to_s3 demo_env ''/tmp/predictions.csv'' (Some ''titanic'') None
     (Some ''http://minio:9000'') None None ''us-east-1'' staged_state) = Inr True
   \<and> path_name ''/tmp/predictions.csv'' = ''predictions.csv''
   \<and> (\<exists>file_size.
    trace (snd (upload_file_to_s3 demo_env ''/tmp/predictions.csv'' (Some ''titanic'') None
     (Some ''http://minio:9000'') None None ''us-east-1'' staged_state)) = trace staged_state @
      [Boto3Client (Some ''http://minio:9000'') None None ''us-east-1'',
       Print (''Uploading '' @ quoted ''/tmp/predictions.csv'' @ '' ('' @ str_nat file_size
              @ '' bytes) to bucket '' @ quoted (py_str (Some ''titanic'')) @ '' as ''
              @ quoted (path_name ''/tmp/predictions.csv'') @ ''...''),
       UploadFile ''/tmp/predictions.csv'' (Some ''titanic'') (path_name ''/tmp/predictions.csv''),
       Print (check_mark @ '' Successfully uploaded '' @ quoted (path_name ''/tmp/predictions.csv'')
              @ '' to bucket '' @ quoted (py_str (Some ''titanic''))),
       Print (file_folder @ '' File URL: '' @
         (case Some ''http://minio:9000'' of
            None \<Rightarrow> ''https://'' @ py_str (Some ''titanic'') @ ''.s3.'' @ ''us-east-1''
                      @ ''.amazonaws.com/'' @ path_name ''/tmp/predictions.csv''
          | Some endpoint \<Rightarrow> endpoint @ ''/'' @ py_str (Some ''titanic'') @ ''/''
                      @ path_name ''/tmp/predictions.csv''))])"
proof -
  have n: "path_name ''/tmp/predictions.csv'' = ''predictions.csv''"
    by (simp add: path_name_def)
  have f: "files staged_state ''/tmp/predictions.csv'' = Some ''PassengerId,predictions''"
    by (simp add: staged_state_def)
  have c: "s3_client demo_env (Some ''http://minio:9000'') None None ''us-east-1'' = None"
    by (simp add: demo_env_def)
  have u: "s3_upload_file demo_env ''/tmp/predictions.csv'' (Some ''titanic'')
             ''predictions.csv'' = None"
    by (simp add: demo_env_def)
  have k: "''predictions.csv'' = (case None of None \<Rightarrow> path_name ''/tmp/predictions.csv''
             | Some k \<Rightarrow> k)"
    by (simp only: n option.case)
  have h: "fst (upload_file_to_s3 demo_env ''/tmp/predictions.csv'' (Some ''titanic'') None
     (Some ''http://minio:9000'') None None ''us-east-1'' staged_state) = Inr True"
    by (simp only: upload_run_ok [OF f c u k] fst_conv)
  from h n upload_default_key [OF h, THEN conjunct1] show ?thesis by (intro conjI)
qed


text \<open>
  C6. When the metadata probe answers not-found, the download returns failure after that
  one probe: no transfer is requested, no directory is made and no local file changes.
\<close>

theorem download_not_found:
  assumes "file_path \<noteq> None \<or> object_key \<noteq> None"
    and "s3_client E endpoint_url aws_access_key_id aws_secret_access_key region = None"
    and "s3_head_object E bucket_name object_key = Inl (ClientError ''404'' m)"
  shows "\<exists>s' evs.
      download_file_from_s3 E bucket_name object_key file_path endpoint_url aws_access_key_id
        aws_secret_access_key region s = (Inr False, s')
      \<and> files s' = files s
      \<and> trace s' = trace s @ evs
      \<and> evs = [Boto3Client endpoint_url aws_access_key_id aws_secret_access_key region,
                HeadObject bucket_name object_key,
                Print (cross_mark @ '' Error: Object '' @ quoted (py_str object_key)
                       @ '' not found in bucket '' @ quoted (py_str bucket_name) @ ''.'')]
      \<and> length (filter is_probe evs) = 1
      \<and> filter is_download evs = []
      \<and> filter is_mkdir evs = []"
  by (simp add: download_run_not_found [OF assms])

theorem download_not_found_witness:
  "s3_client missing_env None None None ''us-east-1'' = None
   \<and> s3_head_object missing_env (Some ''titanic'') (Some ''data/test.csv'')
       = Inl (ClientError ''404'' ''Not Found'')
   \<and> (\<exists>s' evs.
      download_file_from_s3 missing_env (Some ''titanic'') (Some ''data/test.csv'')
        (Some ''/tmp/test.csv'') None None None ''us-east-1'' demo_state = (Inr False, s')
      \<and> files s' = files demo_state
      \<and> trace s' = trace demo_state @ evs
      \<and> evs = [Boto3Client None None None ''us-east-1'',
                HeadObject (Some ''titanic'') (Some ''data/test.csv''),
                Print (cross_mark @ '' Error: Object '' @ quoted (py_str (Some ''data/test.csv''))
                       @ '' not found in bucket '' @ quoted (py_str (Some ''titanic'')) @ ''.'')]
      \<and> length (filter is_probe evs) = 1
      \<and> filter is_download evs = []
      \<and> filter is_mkdir evs = [])"
proof -
  have a: "Some ''/tmp/test.csv'' \<noteq> None \<or> Some ''data/test.csv'' \<noteq> (None :: string option)"
    by simp
  have b: "s3_client missing_env None None None ''us-east-1'' = None"
    by (simp add: missing_env_def demo_env_def)
  have c: "s3_head_object missing_env (Some ''titanic'') (Some ''data/test.csv'')
       = Inl (ClientError ''404'' ''Not Found'')"
    by (simp add: missing_env_def)
  from b c download_not_found [OF a b c, of demo_state] show ?thesis by (intro conjI)
qed



text \<open>
  C3, as the code has it. A probe that fails with anything but not-found ends the call
  with the plain failure result: nothing is raised to the caller, nothing is transferred
  and no local file changes. A service error with another code is first replaced by the
  generic exception, which the function's own last handler reports as unexpected.
\<close>

theorem probe_error_returns_failure:
  assumes "file_path \<noteq> None \<or> object_key \<noteq> None"
    and "s3_client E endpoint_url aws_access_key_id aws_secret_access_key region = None"
    and "s3_head_object E bucket_name object_key = Inl e"
    and "\<not> is_not_found e"
  shows "\<exists>s' evs.
      download_file_from_s3 E bucket_name object_key file_path endpoint_url aws_access_key_id
        aws_secret_access_key region s = (Inr False, s')
      \<and> files s' = files s
      \<and> trace s' = trace s @
           Boto3Client endpoint_url aws_access_key_id aws_secret_access_key region
           # HeadObject bucket_name object_key # evs
      \<and> list_all is_print evs
      \<and> (is_client_error e \<longrightarrow>
            evs = [Print (cross_mark @ '' Unexpected error: Error checking object existence'')])"
proof -
  from download_run_probe_error [OF assms, of s] obtain evs where
    run: "download_file_from_s3 E bucket_name object_key file_path endpoint_url
        aws_access_key_id aws_secret_access_key region s =
      (Inr False, s\<lparr>trace := trace s @
         Boto3Client endpoint_url aws_access_key_id aws_secret_access_key region
         # HeadObject bucket_name object_key # evs\<rparr>)"
    and p: "list_all is_print evs"
    and c: "is_client_error e \<longrightarrow>
            evs = [Print (cross_mark @ '' Unexpected error: Error checking object existence'')]"
    by blast
  show ?thesis
    by (intro exI [of _ evs] exI [of _ "s\<lparr>trace := trace s @
         Boto3Client endpoint_url aws_access_key_id aws_secret_access_key region
         # HeadObject bucket_name object_key # evs\<rparr>"] conjI run p c) simp_all
qed

theorem probe_error_returns_failure_witness:
  "s3_client forbidden_env None None None ''us-east-1'' = None
   \<and> s3_head_object forbidden_env (Some ''titanic'') (Some ''data/test.csv'')
       = Inl (ClientError ''403'' ''Forbidden'')
   \<and> \<not> is_not_found (ClientError ''403'' ''Forbidden'')
   \<and> (\<exists>s' evs.
      download_file_from_s3 forbidden_env (Some ''titanic'') (Some ''data/test.csv'')
        (Some ''/tmp/test.csv'') None None None ''us-east-1'' demo_state = (Inr False, s')
      \<and> files s' = files demo_state
      \<and> trace s' = trace demo_state @
           Boto3Client None None None ''us-east-1''
           # HeadObject (Some ''titanic'') (Some ''data/test.csv'') # evs
      \<and> list_all is_print evs
      \<and> (is_client_error (ClientError ''403'' ''Forbidden'') \<longrightarrow>
            evs = [Print (cross_mark @ '' Unexpected error: Error checking object existence'')]))"
proof -
  have a: "Some ''/tmp/test.csv'' \<noteq> None \<or> Some ''data/test.csv'' \<noteq> (None :: string option)"
    by simp
  have b: "s3_client forbidden_env None None None ''us-east-1'' = None"
    by (simp add: forbidden_env_def demo_env_def)
  have c: "s3_head_object forbidden_env (Some ''titanic'') (Some ''data/test.csv'')
       = Inl (ClientError ''403'' ''Forbidden'')"
    by (simp add: forbidden_env_def)
  have d: "\<not> is_not_found (ClientError ''403'' ''Forbidden'')"
    by simp
  from b c d probe_error_returns_failure [OF a b c d, of demo_state] show ?thesis
    by (intro conjI)
qed

text \<open>
  C3, as the spec states it, fails: with access forbidden at the probe the call returns
  \<open>False\<close>; it does not raise.
\<close>

theorem probe_error_escalation_counterexample:
  "s3_client forbidden_env None None None ''us-east-1'' = None
   \<and> s3_head_object forbidden_env (Some ''titanic'') (Some ''data/test.csv'')
       = Inl (ClientError ''403'' ''Forbidden'')
   \<and> download_file_from_s3 forbidden_env (Some ''titanic'') (Some ''data/test.csv'')
        (Some ''/tmp/test.csv'') None None None ''us-east-1'' demo_state
       = (Inr False,
          demo_state\<lparr>trace := trace demo_state @
            [Boto3Client None None None ''us-east-1'',
             HeadObject (Some ''titanic'') (Some ''data/test.csv''),
             Print (cross_mark @ '' Unexpected error: Error checking object existence'')]\<rparr>)"
proof -
  have b: "s3_client forbidden_env None None None ''us-east-1'' = None"
    by (simp add: forbidden_env_def demo_env_def)
  have c: "s3_head_object forbidden_env (Some ''titanic'') (Some ''data/test.csv'')
       = Inl (ClientError ''403'' ''Forbidden'')"
    by (simp add: forbidden_env_def)
  have n: "''403'' \<noteq> ''404''" by simp
  from download_body_client_error [OF b c n, of "''/tmp/test.csv''" demo_state]
  have "download_file_from_s3 forbidden_env (Some ''titanic'') (Some ''data/test.csv'')
        (Some ''/tmp/test.csv'') None None None ''us-east-1'' demo_state
       = (Inr False,
          demo_state\<lparr>trace := trace demo_state @
            [Boto3Client None None None ''us-east-1'',
             HeadObject (Some ''titanic'') (Some ''data/test.csv''),
             Print (cross_mark @ '' Unexpected error: Error checking object existence'')]\<rparr>)"
    by (simp add: download_file_from_s3_def try_except_def download_handler_def)
  with b c show ?thesis by (intro conjI)
qed

text \<open>
  C7. When the client reports missing credentials, at its construction or at a request,
  upload and download both return \<open>False\<close> without raising, and the last lines they print
  are the help naming the three ways to supply credentials: environment variables, the
  credentials file, and the instance's IAM role.
\<close>

theorem missing_credentials_failure:
  "(isfile s file_path \<longrightarrow>
      (s3_client E endpoint_url aws_access_key_id aws_secret_access_key region
         = Some (NoCredentialsError m)
       \<or> s3_client E endpoint_url aws_access_key_id aws_secret_access_key region = None
         \<and> s3_upload_file E file_path bucket_name
              (case object_key of None \<Rightarrow> path_name file_path | Some k \<Rightarrow> k)
            = Some (NoCredentialsError m)) \<longrightarrow>
      (\<exists>evs. upload_file_to_s3 E file_path bucket_name object_key endpoint_url
                aws_access_key_id aws_secret_access_key region s =
              (Inr False, s\<lparr>trace := trace s @ evs @ map Print credentials_help\<rparr>)))
   \<and> ((case local_path of Some p \<Rightarrow> Some p | None \<Rightarrow> map_option path_name remote_key) = Some p
        \<longrightarrow>
      (s3_client E endpoint_url aws_access_key_id aws_secret_access_key region
         = Some (NoCredentialsError m)
       \<or> s3_client E endpoint_url aws_access_key_id aws_secret_access_key region = None
         \<and> (s3_head_object E bucket_name remote_key = Inl (NoCredentialsError m)
            \<or> (\<exists>n. s3_head_object E bucket_name remote_key = Inr n)
              \<and> mkdir E p = None
              \<and> s3_download_file E bucket_name remote_key p = Inl (NoCredentialsError m))) \<longrightarrow>
      (\<exists>evs. download_file_from_s3 E bucket_name remote_key local_path endpoint_url
                aws_access_key_id aws_secret_access_key region s =
              (Inr False, s\<lparr>trace := trace s @ evs @ map Print credentials_help\<rparr>)))
   \<and> credentials_help =
       [cross_mark @ '' Error: AWS credentials not found. Please configure your credentials.'',
        ''You can set them via:'',
        ''  - Environment variables (AWS_ACCESS_KEY_ID, AWS_SECRET_ACCESS_KEY)'',
        ''  - AWS credentials file (~/.aws/credentials)'',
        ''  - IAM roles (if running on EC2)'']"
proof (intro conjI impI)
  assume "isfile s file_path"
  then obtain c where c: "files s file_path = Some c" by (auto simp: isfile_def)
  assume "s3_client E endpoint_url aws_access_key_id aws_secret_access_key region
         = Some (NoCredentialsError m)
       \<or> s3_client E endpoint_url aws_access_key_id aws_secret_access_key region = None
         \<and> s3_upload_file E file_path bucket_name
              (case object_key of None \<Rightarrow> path_name file_path | Some k \<Rightarrow> k)
            = Some (NoCredentialsError m)"
  from upload_run_no_credentials [OF c refl this]
  show "\<exists>evs. upload_file_to_s3 E file_path bucket_name object_key endpoint_url
                aws_access_key_id aws_secret_access_key region s =
              (Inr False, s\<lparr>trace := trace s @ evs @ map Print credentials_help\<rparr>)" .
next
  assume "(case local_path of Some p \<Rightarrow> Some p | None \<Rightarrow> map_option path_name remote_key) = Some p"
    and "s3_client E endpoint_url aws_access_key_id aws_secret_access_key region
         = Some (NoCredentialsError m)
       \<or> s3_client E endpoint_url aws_access_key_id aws_secret_access_key region = None
         \<and> (s3_head_object E bucket_name remote_key = Inl (NoCredentialsError m)
            \<or> (\<exists>n. s3_head_object E bucket_name remote_key = Inr n)
              \<and> mkdir E p = None
              \<and> s3_download_file E bucket_name remote_key p = Inl (NoCredentialsError m))"
  then show "\<exists>evs. download_file_from_s3 E bucket_name remote_key local_path endpoint_url
                aws_access_key_id aws_secret_access_key region s =
              (Inr False, s\<lparr>trace := trace s @ evs @ map Print credentials_help\<rparr>)"
    by (rule download_run_no_credentials)
next
  show "credentials_help =
       [cross_mark @ '' Error: AWS credentials not found. Please configure your credentials.'',
        ''You can set them via:'',
        ''  - Environment variables (AWS_ACCESS_KEY_ID, AWS_SECRET_ACCESS_KEY)'',
        ''  - AWS credentials file (~/.aws/credentials)'',
        ''  - IAM roles (if running on EC2)'']"
    by (simp add: credentials_help_def)
qed




theorem missing_credentials_failure_witness:
  "isfile staged_state ''/tmp/predictions.csv''
   \<and> s3_client anonymous_env None None None ''us-east-1'' = None
   \<and> s3_upload_file anonymous_env ''/tmp/predictions.csv'' (Some ''titanic'')
         (case Some ''data/predictions.csv'' of None \<Rightarrow> path_name ''/tmp/predictions.csv''
          | Some k \<Rightarrow> k)
       = Some (NoCredentialsError ''Unable to locate credentials'')
   \<and> (\<exists>evs. upload_file_to_s3 anonymous_env ''/tmp/predictions.csv'' (Some ''titanic'')
               (Some ''data/predictions.csv'') None None None ''us-east-1'' staged_state =
             (Inr False,
              staged_state\<lparr>trace := trace staged_state @ evs @ map Print credentials_help\<rparr>))
   \<and> (case Some ''/tmp/test.csv'' of Some p \<Rightarrow> Some p
        | None \<Rightarrow> map_option path_name (Some ''data/test.csv'')) = Some ''/tmp/test.csv''
   \<and> s3_head_object anonymous_env (Some ''titanic'') (Some ''data/test.csv'')
       = Inl (NoCredentialsError ''Unable to locate credentials'')
   \<and> (\<exists>evs. download_file_from_s3 anonymous_env (Some ''titanic'') (Some ''data/test.csv'')
               (Some ''/tmp/test.csv'') None None None ''us-east-1'' demo_state =
             (Inr False,
              demo_state\<lparr>trace := trace demo_state @ evs @ map Print credentials_help\<rparr>))"
proof -
  have f: "isfile staged_state ''/tmp/predictions.csv''"
    by (simp add: isfile_def staged_state_def)
  have c: "s3_client anonymous_env None None None ''us-east-1'' = None"
    by (simp add: anonymous_env_def demo_env_def)
  have u: "s3_upload_file anonymous_env ''/tmp/predictions.csv'' (Some ''titanic'')
         (case Some ''data/predictions.csv'' of None \<Rightarrow> path_name ''/tmp/predictions.csv''
          | Some k \<Rightarrow> k)
       = Some (NoCredentialsError ''Unable to locate credentials'')"
    by (simp add: anonymous_env_def)
  have p: "(case Some ''/tmp/test.csv'' of Some p \<Rightarrow> Some p
        | None \<Rightarrow> map_option path_name (Some ''data/test.csv'')) = Some ''/tmp/test.csv''"
    by simp
  have h: "s3_head_object anonymous_env (Some ''titanic'') (Some ''data/test.csv'')
       = Inl (NoCredentialsError ''Unable to locate credentials'')"
    by (simp add: anonymous_env_def)
  note up_inst = missing_credentials_failure [where s = staged_state
      and file_path = "''/tmp/predictions.csv''" and E = anonymous_env
      and endpoint_url = None and aws_access_key_id = None and aws_secret_access_key = None
      and region = "''us-east-1''" and m = "''Unable to locate credentials''"
      and bucket_name = "Some ''titanic''" and object_key = "Some ''data/predictions.csv''"]
  note down_inst = missing_credentials_failure [where s = demo_state
      and E = anonymous_env
      and endpoint_url = None and aws_access_key_id = None and aws_secret_access_key = None
      and region = "''us-east-1''" and m = "''Unable to locate credentials''"
      and bucket_name = "Some ''titanic''" and local_path = "Some ''/tmp/test.csv''"
      and remote_key = "Some ''data/test.csv''" and p = "''/tmp/test.csv''"]
  from up_inst f c u have up: "\<exists>evs. upload_file_to_s3 anonymous_env ''/tmp/predictions.csv''
               (Some ''titanic'') (Some ''data/predictions.csv'') None None None ''us-east-1''
               staged_state =
             (Inr False,
              staged_state\<lparr>trace := trace staged_state @ evs @ map Print credentials_help\<rparr>)"
    by blast
  from down_inst p c h have down: "\<exists>evs. download_file_from_s3 anonymous_env (Some ''titanic'')
               (Some ''data/test.csv'') (Some ''/tmp/test.csv'') None None None ''us-east-1''
               demo_state =
             (Inr False,
              demo_state\<lparr>trace := trace demo_state @ evs @ map Print credentials_help\<rparr>)"
    by blast
  from f c u up p h down show ?thesis by (intro conjI)
qed

section \<open>Properties of the pipeline driver\<close>

lemma main_predict_unbound:
  "main_predict E None s =
     (Inl (Exception (cross_mark @ '' Error during prediction: name '' @ quoted ''df''
                      @ '' is not defined'')),
      s\<lparr>trace := trace s @ [Print ''Making predictions...'']\<rparr>)"
  by (simp add: main_predict_def try_except_def global_df_def)

text \<open>
  C2. When the download returns failure the run ends with an exception before any
  prediction or upload: the script prints the failure, configures the tracking URI, and
  at \<open>predict(df)\<close> the unbound \<open>df\<close> raises \<open>NameError\<close>, which the \<open>try\<close> around the
  prediction wraps and raises again. The model is never loaded or called, nothing is
  serialized and nothing uploaded.
\<close>

theorem download_failure_aborts:
  assumes "fst (main_download E s) = Inr False"
  shows "\<exists>evs.
      main E s =
        (Inl (Exception (cross_mark @ '' Error during prediction: name '' @ quoted ''df''
                         @ '' is not defined'')),
         (snd (main_download E s))\<lparr>trace := trace (snd (main_download E s)) @
           [Print ''File download failed.'',
            SetTrackingUri (getenv E ''MLFLOW_TRACKING_URI''),
            Print (''MLflow Tracking URI: ''
                   @ get_tracking_uri E (getenv E ''MLFLOW_TRACKING_URI'')),
            Print ''Making predictions...'']\<rparr>)
      \<and> trace (snd (main_download E s)) = trace s @ evs
      \<and> list_all (\<lambda>ev. \<not> is_prediction ev \<and> \<not> is_upload ev \<and> \<not> is_to_csv ev) evs"
proof -
  obtain s1 where d: "main_download E s = (Inr False, s1)"
    using assms by (cases "main_download E s") simp
  from main_download_effects [OF d] obtain evs where
    t: "trace s1 = trace s @ evs"
    and p: "list_all (\<lambda>ev. \<not> is_prediction ev \<and> \<not> is_upload ev \<and> \<not> is_to_csv ev) evs"
    by blast
  have "main E s =
        (Inl (Exception (cross_mark @ '' Error during prediction: name '' @ quoted ''df''
                         @ '' is not defined'')),
         s1\<lparr>trace := trace s1 @
           [Print ''File download failed.'',
            SetTrackingUri (getenv E ''MLFLOW_TRACKING_URI''),
            Print (''MLflow Tracking URI: ''
                   @ get_tracking_uri E (getenv E ''MLFLOW_TRACKING_URI'')),
            Print ''Making predictions...'']\<rparr>)"
    by (simp add: main_def bind_run [where m = "main_download E", OF d] Let_def
        bind_fail [where m = "main_predict E None", OF main_predict_unbound])
  with d t p show ?thesis by (intro exI [of _ evs]) simp
qed

theorem download_failure_aborts_witness:
  "fst (main_download missing_env demo_state) = Inr False
   \<and> (\<exists>evs.
      main missing_env demo_state =
        (Inl (Exception (cross_mark @ '' Error during prediction: name '' @ quoted ''df''
                         @ '' is not defined'')),
         (snd (main_download missing_env demo_state))\<lparr>trace :=
           trace (snd (main_download missing_env demo_state)) @
           [Print ''File download failed.'',
            SetTrackingUri (getenv missing_env ''MLFLOW_TRACKING_URI''),
            Print (''MLflow Tracking URI: ''
                   @ get_tracking_uri missing_env (getenv missing_env ''MLFLOW_TRACKING_URI'')),
            Print ''Making predictions...'']\<rparr>)
      \<and> trace (snd (main_download missing_env demo_state)) = trace demo_state @ evs
      \<and> list_all (\<lambda>ev. \<not> is_prediction ev \<and> \<not> is_upload ev \<and> \<not> is_to_csv ev) evs)"
proof -
  have c: "s3_client missing_env (getenv missing_env ''S3_ENDPOINT_URL'')
             (getenv missing_env ''AWS_ACCESS_KEY_ID'')
             (getenv missing_env ''AWS_SECRET_ACCESS_KEY'')
             (getenv_default missing_env ''AWS_DEFAULT_REGION'' ''us-east-1'') = None"
    by (simp add: missing_env_def demo_env_def)
  have h: "s3_head_object missing_env (getenv missing_env ''S3_BUCKET_NAME'')
             (getenv missing_env ''S3_OBJECT_KEY'') = Inl (ClientError ''404'' ''Not Found'')"
    by (simp add: missing_env_def)
  have d: "fst (main_download missing_env demo_state) = Inr False"
    by (simp only: main_download_run_not_found [OF c h] fst_conv)
  from d download_failure_aborts [OF d] show ?thesis by (intro conjI)
qed




lemma predict_raises:
  assumes "load_model E (getenv E ''MLFLOW_LOGGED_MODEL'') = Inl e
           \<or> (\<exists>h. load_model E (getenv E ''MLFLOW_LOGGED_MODEL'') = Inr h
                  \<and> model_predict E h df = Inl e)"
  shows "\<exists>evs. predict E df s = (Inl e, s\<lparr>trace := trace s @ evs\<rparr>)
           \<and> evs \<noteq> [] \<and> list_all is_prediction evs"
proof -
  let ?ref = "getenv E ''MLFLOW_LOGGED_MODEL''"
  from assms show ?thesis
  proof
    assume "load_model E ?ref = Inl e"
    then have "predict E df s = (Inl e, s\<lparr>trace := trace s @ [LoadModel ?ref]\<rparr>)"
      by (simp add: predict_def Let_def)
    then show ?thesis by (intro exI [of _ "[LoadModel ?ref]"]) simp
  next
    assume "\<exists>h. load_model E ?ref = Inr h \<and> model_predict E h df = Inl e"
    then obtain h where "load_model E ?ref = Inr h" and "model_predict E h df = Inl e"
      by blast
    then have "predict E df s =
        (Inl e, s\<lparr>trace := trace s @ [LoadModel ?ref, ModelPredict h df]\<rparr>)"
      by (simp add: predict_def Let_def)
    then show ?thesis by (intro exI [of _ "[LoadModel ?ref, ModelPredict h df]"]) simp
  qed
qed

lemma main_predict_raises:
  assumes "predict E df (s\<lparr>trace := trace s @ [Print ''Making predictions...'']\<rparr>) = (Inl e, s')"
  shows "main_predict E (Some df) s =
     (Inl (Exception (cross_mark @ '' Error during prediction: '' @ str_exn e)), s')"
  using assms by (simp add: main_predict_def try_except_def global_df_def)

text \<open>
  C8. When loading the model or its prediction raises, the run ends there with an
  exception whose message is the context "Error during prediction" followed by the text
  of the error: after the events of the prediction nothing more happens, so nothing is
  assembled, serialized or uploaded.
\<close>

theorem prediction_failure_fatal:
  assumes "fst (main_download E s) = Inr True"
    and "files (snd (main_download E s)) ''/tmp/test.csv'' = Some content"
    and "read_csv E content = Inr df"
    and "load_model E (getenv E ''MLFLOW_LOGGED_MODEL'') = Inl e
         \<or> (\<exists>h. load_model E (getenv E ''MLFLOW_LOGGED_MODEL'') = Inr h
                \<and> model_predict E h df = Inl e)"
  shows "\<exists>evs.
      main E s =
        (Inl (Exception (cross_mark @ '' Error during prediction: '' @ str_exn e)),
         (snd (main_download E s))\<lparr>trace := trace (snd (main_download E s)) @
           [ReadCsv ''/tmp/test.csv'',
            Print (repr E (head df)),
            SetTrackingUri (getenv E ''MLFLOW_TRACKING_URI''),
            Print (''MLflow Tracking URI: ''
                   @ get_tracking_uri E (getenv E ''MLFLOW_TRACKING_URI'')),
            Print ''Making predictions...''] @ evs\<rparr>)
      \<and> evs \<noteq> [] \<and> list_all is_prediction evs"
proof -
  obtain s1 where d: "main_download E s = (Inr True, s1)"
    using assms(1) by (cases "main_download E s") simp
  with assms(2) have f: "files s1 ''/tmp/test.csv'' = Some content" by simp
  let ?s2 = "s1\<lparr>trace := trace s1 @
           [ReadCsv ''/tmp/test.csv'',
            Print (repr E (head df)),
            SetTrackingUri (getenv E ''MLFLOW_TRACKING_URI''),
            Print (''MLflow Tracking URI: ''
                   @ get_tracking_uri E (getenv E ''MLFLOW_TRACKING_URI''))]\<rparr>"
  let ?s3 = "?s2\<lparr>trace := trace ?s2 @ [Print ''Making predictions...'']\<rparr>"
  from predict_raises [OF assms(4), of ?s3] obtain evs where
    p: "predict E df ?s3 = (Inl e, ?s3\<lparr>trace := trace ?s3 @ evs\<rparr>)"
    and ne: "evs \<noteq> []" and pr: "list_all is_prediction evs"
    by blast
  have p': "predict E df (?s2\<lparr>trace := trace ?s2 @ [Print ''Making predictions...'']\<rparr>) =
          (Inl e, s1\<lparr>trace := trace s1 @
           [ReadCsv ''/tmp/test.csv'',
            Print (repr E (head df)),
            SetTrackingUri (getenv E ''MLFLOW_TRACKING_URI''),
            Print (''MLflow Tracking URI: ''
                   @ get_tracking_uri E (getenv E ''MLFLOW_TRACKING_URI'')),
            Print ''Making predictions...''] @ evs\<rparr>)"
    using p by simp
  have "main E s =
        (Inl (Exception (cross_mark @ '' Error during prediction: '' @ str_exn e)),
         s1\<lparr>trace := trace s1 @
           [ReadCsv ''/tmp/test.csv'',
            Print (repr E (head df)),
            SetTrackingUri (getenv E ''MLFLOW_TRACKING_URI''),
            Print (''MLflow Tracking URI: ''
                   @ get_tracking_uri E (getenv E ''MLFLOW_TRACKING_URI'')),
            Print ''Making predictions...''] @ evs\<rparr>)"
    using d pd_read_csv_run [OF f assms(3)] main_predict_raises [OF p']
    by (simp add: main_def bind_def emit_def Let_def)
  with d ne pr show ?thesis by (intro exI [of _ evs]) simp
qed




theorem prediction_failure_fatal_witness:
  "fst (main_download broken_model_env demo_state) = Inr True
   \<and> files (snd (main_download broken_model_env demo_state)) ''/tmp/test.csv''
       = Some ''PassengerId,Feature1;1,0.5;2,1.2;3,0.9''
   \<and> read_csv broken_model_env ''PassengerId,Feature1;1,0.5;2,1.2;3,0.9'' = Inr demo_table
   \<and> load_model broken_model_env (getenv broken_model_env ''MLFLOW_LOGGED_MODEL'') = Inr 7
   \<and> model_predict broken_model_env 7 demo_table = Inl (ValueError ''bad input'')
   \<and> (\<exists>evs.
      main broken_model_env demo_state =
        (Inl (Exception (cross_mark @ '' Error during prediction: ''
                         @ str_exn (ValueError ''bad input''))),
         (snd (main_download broken_model_env demo_state))\<lparr>trace :=
           trace (snd (main_download broken_model_env demo_state)) @
           [ReadCsv ''/tmp/test.csv'',
            Print (repr broken_model_env (head demo_table)),
            SetTrackingUri (getenv broken_model_env ''MLFLOW_TRACKING_URI''),
            Print (''MLflow Tracking URI: ''
                   @ get_tracking_uri broken_model_env
                       (getenv broken_model_env ''MLFLOW_TRACKING_URI'')),
            Print ''Making predictions...''] @ evs\<rparr>)
      \<and> evs \<noteq> [] \<and> list_all is_prediction evs)"
proof -
  have c: "s3_client broken_model_env (getenv broken_model_env ''S3_ENDPOINT_URL'')
             (getenv broken_model_env ''AWS_ACCESS_KEY_ID'')
             (getenv broken_model_env ''AWS_SECRET_ACCESS_KEY'')
             (getenv_default broken_model_env ''AWS_DEFAULT_REGION'' ''us-east-1'') = None"
    by (simp add: broken_model_env_def demo_env_def)
  have h: "s3_head_object broken_model_env (getenv broken_model_env ''S3_BUCKET_NAME'')
             (getenv broken_model_env ''S3_OBJECT_KEY'') = Inr 38"
    by (simp add: broken_model_env_def demo_env_def)
  have m: "mkdir broken_model_env ''/tmp/test.csv'' = None"
    by (simp add: broken_model_env_def demo_env_def)
  have g: "s3_download_file broken_model_env (getenv broken_model_env ''S3_BUCKET_NAME'')
             (getenv broken_model_env ''S3_OBJECT_KEY'') ''/tmp/test.csv''
           = Inr ''PassengerId,Feature1;1,0.5;2,1.2;3,0.9''"
    by (simp add: broken_model_env_def demo_env_def)
  note run = main_download_run_ok [OF c h m g, of demo_state]
  have d: "fst (main_download broken_model_env demo_state) = Inr True"
    by (simp only: run fst_conv)
  have f: "files (snd (main_download broken_model_env demo_state)) ''/tmp/test.csv''
       = Some ''PassengerId,Feature1;1,0.5;2,1.2;3,0.9''"
    by (simp add: run)
  have r: "read_csv broken_model_env ''PassengerId,Feature1;1,0.5;2,1.2;3,0.9'' = Inr demo_table"
    by (simp add: broken_model_env_def demo_env_def)
  have l: "load_model broken_model_env (getenv broken_model_env ''MLFLOW_LOGGED_MODEL'') = Inr 7"
    by (simp add: broken_model_env_def demo_env_def)
  have p: "model_predict broken_model_env 7 demo_table = Inl (ValueError ''bad input'')"
    by (simp add: broken_model_env_def)
  from l p have lp: "load_model broken_model_env (getenv broken_model_env ''MLFLOW_LOGGED_MODEL'')
           = Inl (ValueError ''bad input'')
         \<or> (\<exists>h. load_model broken_model_env (getenv broken_model_env ''MLFLOW_LOGGED_MODEL'')
                  = Inr h
                \<and> model_predict broken_model_env h demo_table = Inl (ValueError ''bad input''))"
    by blast
  from d f r l p prediction_failure_fatal [OF d f r lp] show ?thesis by (intro conjI)
qed

section \<open>The assembled table\<close>

lemma getitem_length:
  assumes "wf_dataframe df" and "getitem df name = Inr (labels, c)"
  shows "length c = nrows df" and "labels = row_labels df"
proof -
  from assms(2) have m: "map_of (cols df) name = Some c" and l: "labels = row_labels df"
    by (auto simp: getitem_def split: option.splits)
  from m have "(name, c) \<in> set (cols df)" by (rule map_of_SomeD)
  with assms(1) show "length c = nrows df" by (auto simp: wf_dataframe_def list_all_iff)
  from l show "labels = row_labels df" .
qed

text \<open>
  C1, as the code has it. For an input table of N rows with an identifier column and N
  predictions returned as a positional sequence, or as a Series that carries the row
  labels of the input in their order, the assembled table has N rows with the labels of
  the input, carries the identifiers unchanged and in order, and its row \<open>i\<close> pairs
  identifier \<open>i\<close> with prediction \<open>i\<close>.
\<close>

theorem preds_df_rows:
  assumes "wf_dataframe df"
    and "getitem df ''PassengerId'' = Inr (labels, ids)"
    and "predictions = Sequence xs \<or> predictions = Series (row_labels df) xs"
    and "length xs = nrows df"
  shows "\<exists>out. preds_df df predictions = Inr out
           \<and> nrows out = nrows df
           \<and> row_labels out = row_labels df
           \<and> wf_dataframe out
           \<and> map fst (cols out) = [''PassengerId'', ''predictions'']
           \<and> getitem out ''PassengerId'' = Inr (row_labels df, ids)
           \<and> getitem out ''predictions'' = Inr (row_labels df, xs)
           \<and> (\<forall>i < nrows df. row out i = [ids ! i, xs ! i])"
proof -
  from assms(1,2) have len: "length ids = nrows df" and lab: "labels = row_labels df"
    by (rule getitem_length)+
  let ?out = "\<lparr>row_labels = row_labels df,
               cols = [(''PassengerId'', ids), (''predictions'', xs)]\<rparr>"
  from assms(2,3,4) lab have "preds_df df predictions = Inr ?out"
    by (auto simp: preds_df_def DataFrame_def nrows_def)
  moreover from assms(4) len have "wf_dataframe ?out"
    by (simp add: wf_dataframe_def nrows_def)
  moreover have "getitem ?out ''PassengerId'' = Inr (row_labels df, ids)"
    and "getitem ?out ''predictions'' = Inr (row_labels df, xs)"
    by (simp_all add: getitem_def)
  moreover have "\<forall>i < nrows df. row ?out i = [ids ! i, xs ! i]"
    by (simp add: row_def)
  ultimately show ?thesis by (simp add: nrows_def)
qed

theorem preds_df_rows_witness:
  "wf_dataframe demo_table
   \<and> getitem demo_table ''PassengerId'' = Inr ([0, 1, 2], [IntCell 1, IntCell 2, IntCell 3])
   \<and> length [IntCell 0, IntCell 1, IntCell 0] = nrows demo_table
   \<and> preds_df demo_table (Sequence [IntCell 0, IntCell 1, IntCell 0]) =
       Inr \<lparr>row_labels = [0, 1, 2],
            cols = [(''PassengerId'', [IntCell 1, IntCell 2, IntCell 3]),
                    (''predictions'', [IntCell 0, IntCell 1, IntCell 0])]\<rparr>
   \<and> (\<exists>out. preds_df demo_table (Sequence [IntCell 0, IntCell 1, IntCell 0]) = Inr out
         \<and> nrows out = 3
         \<and> row out 1 = [IntCell 2, IntCell 1])"
proof -
  have a: "wf_dataframe demo_table"
    by (simp add: wf_dataframe_def demo_table_def nrows_def)
  have b: "getitem demo_table ''PassengerId''
             = Inr ([0, 1, 2], [IntCell 1, IntCell 2, IntCell 3])"
    by (simp add: getitem_def demo_table_def)
  have c: "length [IntCell 0, IntCell 1, IntCell 0] = nrows demo_table"
    by (simp add: demo_table_def nrows_def)
  have n: "nrows demo_table = 3"
    by (simp add: demo_table_def nrows_def)
  have d: "preds_df demo_table (Sequence [IntCell 0, IntCell 1, IntCell 0]) =
       Inr \<lparr>row_labels = [0, 1, 2],
            cols = [(''PassengerId'', [IntCell 1, IntCell 2, IntCell 3]),
                    (''predictions'', [IntCell 0, IntCell 1, IntCell 0])]\<rparr>"
    by (simp add: preds_df_def getitem_def demo_table_def DataFrame_def)
  have s: "Sequence [IntCell 0, IntCell 1, IntCell 0] = Sequence [IntCell 0, IntCell 1, IntCell 0]
           \<or> Sequence [IntCell 0, IntCell 1, IntCell 0]
              = Series (row_labels demo_table) [IntCell 0, IntCell 1, IntCell 0]"
    by simp
  from preds_df_rows [OF a b s c] obtain out
    where o: "preds_df demo_table (Sequence [IntCell 0, IntCell 1, IntCell 0]) = Inr out"
      and k: "nrows out = nrows demo_table"
      and r: "\<forall>i < nrows demo_table. row out i =
                [[IntCell 1, IntCell 2, IntCell 3] ! i, [IntCell 0, IntCell 1, IntCell 0] ! i]"
    by blast
  from n have "(1::nat) < nrows demo_table" by simp
  with r have "row out 1 =
      [[IntCell 1, IntCell 2, IntCell 3] ! 1, [IntCell 0, IntCell 1, IntCell 0] ! 1]"
    by blast
  then have "row out 1 = [IntCell 2, IntCell 1]" by simp
  with a b c d o k n show ?thesis by auto
qed

text \<open>
  C1, as the spec states it, fails. A Series of N predictions is aligned on its labels,
  not on its positions: for the three-row input and the predictions \<open>0, 0, 1\<close> labelled
  \<open>2, 1, 0\<close>, the assembled table has three rows, and its first row pairs the first
  identifier with the last prediction.
\<close>

theorem preds_df_rows_counterexample:
  "wf_dataframe demo_table
   \<and> nrows demo_table = 3
   \<and> reversed_series = Series [2, 1, 0] [IntCell 0, IntCell 0, IntCell 1]
   \<and> length [IntCell 0, IntCell 0, IntCell 1] = nrows demo_table
   \<and> preds_df demo_table reversed_series =
       Inr \<lparr>row_labels = [0, 1, 2],
            cols = [(''PassengerId'', [IntCell 1, IntCell 2, IntCell 3]),
                    (''predictions'', [IntCell 1, IntCell 0, IntCell 0])]\<rparr>
   \<and> row \<lparr>row_labels = [0, 1, 2],
            cols = [(''PassengerId'', [IntCell 1, IntCell 2, IntCell 3]),
                    (''predictions'', [IntCell 1, IntCell 0, IntCell 0])]\<rparr> 0
       = [IntCell 1, IntCell 1]
   \<and> [[IntCell 1, IntCell 2, IntCell 3] ! 0, [IntCell 0, IntCell 0, IntCell 1] ! 0]
       = [IntCell 1, IntCell 0]"
proof -
  have a: "wf_dataframe demo_table"
    by (simp add: wf_dataframe_def demo_table_def nrows_def)
  have n: "nrows demo_table = 3"
    by (simp add: demo_table_def nrows_def)
  have u: "sort (remdups ([0, 1, 2] @ [2, 1, 0 :: int])) = [0, 1, 2]"
    by simp
  have d: "preds_df demo_table reversed_series =
       Inr \<lparr>row_labels = [0, 1, 2],
            cols = [(''PassengerId'', [IntCell 1, IntCell 2, IntCell 3]),
                    (''predictions'', [IntCell 1, IntCell 0, IntCell 0])]\<rparr>"
    using u
    by (simp add: preds_df_def getitem_def demo_table_def DataFrame_def reversed_series_def
        reindex_def Let_def)
  show ?thesis
    using a n d by (simp add: reversed_series_def row_def)
qed

section \<open>Properties of the persist step\<close>

lemma bind_ret_right: "bind m (\<lambda>x. ret x) s = m s"
  by (cases "m s") (auto simp: bind_def split: sum.splits)

lemma persist_predictions_run:
  assumes "to_csv_failure E df ''/tmp/predictions.csv'' = None"
  shows "persist_predictions E df s =
     upload_file_to_s3 E ''/tmp/predictions.csv''
       (getenv E ''S3_BUCKET_NAME'') (Some ''data/predictions.csv'')
       (getenv E ''S3_ENDPOINT_URL'') (getenv E ''AWS_ACCESS_KEY_ID'')
       (getenv E ''AWS_SECRET_ACCESS_KEY'')
       (getenv_default E ''AWS_DEFAULT_REGION'' ''us-east-1'')
       (s\<lparr>trace := trace s @ [ToCsv ''/tmp/predictions.csv''],
          files := (files s)(''/tmp/predictions.csv'' \<mapsto> to_csv E df)\<rparr>)"
  using assms by (simp add: persist_predictions_def df_to_csv_def bind_ret_right)

lemma persist_predictions_write_fails:
  assumes "to_csv_failure E df ''/tmp/predictions.csv'' = Some (e, left)"
  shows "persist_predictions E df s =
     (Inl e,
      s\<lparr>trace := trace s @ [ToCsv ''/tmp/predictions.csv''],
        files := (case left of
                    None \<Rightarrow> files s
                  | Some partial \<Rightarrow> (files s)(''/tmp/predictions.csv'' \<mapsto> partial))\<rparr>)"
  using assms by (cases left) (simp_all add: persist_predictions_def df_to_csv_def)

lemma persist_predictions_returns:
  assumes "to_csv_failure E df ''/tmp/predictions.csv'' = None"
  shows "\<exists>uploaded s'. persist_predictions E df s = (Inr uploaded, s')"
  using upload_never_raises by (simp add: persist_predictions_run [OF assms])

lemma main_report_unit:
  assumes "to_csv_failure E df ''/tmp/predictions.csv'' = None"
  shows "fst (main_report E df s) = Inr ()"
proof -
  have "fst (bind (persist_predictions E df) (\<lambda>_. ret ()) t) = Inr ()" for t
    using persist_predictions_returns [OF assms, of t] by (auto simp: bind_def)
  then show ?thesis by (simp add: main_report_def)
qed

lemma upload_run_fails:
  assumes "files s fp = Some c"
    and "k = (case ok of None \<Rightarrow> path_name fp | Some k \<Rightarrow> k)"
    and "upload_body E fp b k ep kid sec region s = (Inl e, s1)"
  shows "fst (upload_file_to_s3 E fp b ok ep kid sec region s) = Inr False"
  using assms upload_handler_False [of b e s1]
  by (simp add: upload_file_to_s3_def isfile_def try_except_def)

text \<open>A whole run in which every step before the upload succeeds returns nothing.\<close>

lemma predict_run_ok:
  assumes "load_model E (getenv E ''MLFLOW_LOGGED_MODEL'') = Inr h"
    and "model_predict E h df = Inr p"
  shows "predict E df s =
    (Inr p, s\<lparr>trace := trace s @
       [LoadModel (getenv E ''MLFLOW_LOGGED_MODEL''), ModelPredict h df]\<rparr>)"
  using assms by (simp add: predict_def Let_def)

lemma main_predict_run_ok:
  assumes "load_model E (getenv E ''MLFLOW_LOGGED_MODEL'') = Inr h"
    and "model_predict E h df = Inr p"
  shows "main_predict E (Some df) s =
    (Inr p, s\<lparr>trace := trace s @
       [Print ''Making predictions...'',
        LoadModel (getenv E ''MLFLOW_LOGGED_MODEL''), ModelPredict h df]\<rparr>)"
  by (simp add: main_predict_def try_except_def global_df_def predict_run_ok [OF assms])

lemma main_run_ok:
  assumes d: "main_download E s = (Inr True, s1)"
    and f: "files s1 ''/tmp/test.csv'' = Some content"
    and r: "read_csv E content = Inr df"
    and l: "load_model E (getenv E ''MLFLOW_LOGGED_MODEL'') = Inr h"
    and m: "model_predict E h df = Inr p"
    and t: "preds_df df p = Inr table"
    and w: "to_csv_failure E table ''/tmp/predictions.csv'' = None"
  shows "fst (main E s) = Inr ()"
  using d pd_read_csv_run [OF f r] t
  by (simp add: main_def bind_def emit_def Let_def main_predict_run_ok [OF l m] global_df_def
      main_report_unit [OF w])


text \<open>
  C9, as the code has it. When the table is written to \<open>/tmp/predictions.csv\<close>, the
  persist step then uploads that file to the configured bucket under the key
  \<open>data/predictions.csv\<close> and returns to its caller what the upload returned; it raises
  nothing, whatever the upload meets. The script does not use that value: its last lines
  return nothing, whether the upload succeeded or failed.
\<close>

theorem persist_returns_upload_outcome:
  assumes "to_csv_failure E df ''/tmp/predictions.csv'' = None"
  shows "(\<exists>uploaded s' evs.
       persist_predictions E df s = (Inr uploaded, s')
     \<and> upload_file_to_s3 E ''/tmp/predictions.csv''
         (getenv E ''S3_BUCKET_NAME'') (Some ''data/predictions.csv'')
         (getenv E ''S3_ENDPOINT_URL'') (getenv E ''AWS_ACCESS_KEY_ID'')
         (getenv E ''AWS_SECRET_ACCESS_KEY'')
         (getenv_default E ''AWS_DEFAULT_REGION'' ''us-east-1'')
         (s\<lparr>trace := trace s @ [ToCsv ''/tmp/predictions.csv''],
            files := (files s)(''/tmp/predictions.csv'' \<mapsto> to_csv E df)\<rparr>)
         = (Inr uploaded, s')
     \<and> trace s' = trace s @ ToCsv ''/tmp/predictions.csv'' # evs
     \<and> list_all (\<lambda>ev. is_print ev \<or> is_client ev
           \<or> ev = UploadFile ''/tmp/predictions.csv'' (getenv E ''S3_BUCKET_NAME'')
                    ''data/predictions.csv'') evs
     \<and> (uploaded \<longrightarrow>
           UploadFile ''/tmp/predictions.csv'' (getenv E ''S3_BUCKET_NAME'')
             ''data/predictions.csv'' \<in> set evs))
   \<and> fst (main_report E df s) = Inr ()"
proof (rule conjI)
  let ?s1 = "s\<lparr>trace := trace s @ [ToCsv ''/tmp/predictions.csv''],
          files := (files s)(''/tmp/predictions.csv'' \<mapsto> to_csv E df)\<rparr>"
  let ?up = "upload_file_to_s3 E ''/tmp/predictions.csv''
       (getenv E ''S3_BUCKET_NAME'') (Some ''data/predictions.csv'')
       (getenv E ''S3_ENDPOINT_URL'') (getenv E ''AWS_ACCESS_KEY_ID'')
       (getenv E ''AWS_SECRET_ACCESS_KEY'')
       (getenv_default E ''AWS_DEFAULT_REGION'' ''us-east-1'')"
  let ?req = "UploadFile ''/tmp/predictions.csv'' (getenv E ''S3_BUCKET_NAME'')
           ''data/predictions.csv''"
  from upload_never_raises obtain uploaded s' where u: "?up ?s1 = (Inr uploaded, s')"
    by blast
  from effectsD [OF effects_upload_exact u] obtain evs where
    t: "trace s' = trace ?s1 @ evs"
    and p: "list_all (\<lambda>ev. is_print ev \<or> is_client ev \<or> ev = ?req) evs"
    by auto
  have r: "?req \<in> set evs" if "uploaded"
  proof -
    from that u have "?up ?s1 = (Inr True, s')" by simp
    from upload_success [OF this, of "''data/predictions.csv''"] t show ?thesis
      by auto
  qed
  from u have "persist_predictions E df s = (Inr uploaded, s')"
    by (simp add: persist_predictions_run [OF assms])
  with u t p r show "\<exists>uploaded s' evs.
       persist_predictions E df s = (Inr uploaded, s')
     \<and> ?up ?s1 = (Inr uploaded, s')
     \<and> trace s' = trace s @ ToCsv ''/tmp/predictions.csv'' # evs
     \<and> list_all (\<lambda>ev. is_print ev \<or> is_client ev \<or> ev = ?req) evs
     \<and> (uploaded \<longrightarrow> ?req \<in> set evs)"
    by (intro exI [of _ uploaded] exI [of _ s'] exI [of _ evs]) simp
next
  from assms show "fst (main_report E df s) = Inr ()" by (rule main_report_unit)
qed


theorem persist_returns_upload_outcome_witness:
  "to_csv_failure demo_env demo_result ''/tmp/predictions.csv'' = None
   \<and> fst (persist_predictions demo_env demo_result demo_state) = Inr True
   \<and> fst (main_report demo_env demo_result demo_state) = Inr ()
   \<and> (\<exists>uploaded s' evs.
       persist_predictions demo_env demo_result demo_state = (Inr uploaded, s')
     \<and> upload_file_to_s3 demo_env ''/tmp/predictions.csv''
         (getenv demo_env ''S3_BUCKET_NAME'') (Some ''data/predictions.csv'')
         (getenv demo_env ''S3_ENDPOINT_URL'') (getenv demo_env ''AWS_ACCESS_KEY_ID'')
         (getenv demo_env ''AWS_SECRET_ACCESS_KEY'')
         (getenv_default demo_env ''AWS_DEFAULT_REGION'' ''us-east-1'')
         (demo_state\<lparr>trace := trace demo_state @ [ToCsv ''/tmp/predictions.csv''],
            files := (files demo_state)(''/tmp/predictions.csv''
                        \<mapsto> to_csv demo_env demo_result)\<rparr>)
         = (Inr uploaded, s')
     \<and> trace s' = trace demo_state @ ToCsv ''/tmp/predictions.csv'' # evs
     \<and> list_all (\<lambda>ev. is_print ev \<or> is_client ev
           \<or> ev = UploadFile ''/tmp/predictions.csv'' (getenv demo_env ''S3_BUCKET_NAME'')
                    ''data/predictions.csv'') evs
     \<and> UploadFile ''/tmp/predictions.csv'' (getenv demo_env ''S3_BUCKET_NAME'')
             ''data/predictions.csv'' \<in> set evs)"
proof -
  let ?s1 = "demo_state\<lparr>trace := trace demo_state @ [ToCsv ''/tmp/predictions.csv''],
          files := (files demo_state)(''/tmp/predictions.csv''
                      \<mapsto> to_csv demo_env demo_result)\<rparr>"
  have w: "to_csv_failure demo_env demo_result ''/tmp/predictions.csv'' = None"
    by (simp add: demo_env_def)
  have f: "files ?s1 ''/tmp/predictions.csv'' = Some (to_csv demo_env demo_result)"
    by simp
  have c: "s3_client demo_env (getenv demo_env ''S3_ENDPOINT_URL'')
             (getenv demo_env ''AWS_ACCESS_KEY_ID'') (getenv demo_env ''AWS_SECRET_ACCESS_KEY'')
             (getenv_default demo_env ''AWS_DEFAULT_REGION'' ''us-east-1'') = None"
    by (simp add: demo_env_def)
  have u: "s3_upload_file demo_env ''/tmp/predictions.csv'' (getenv demo_env ''S3_BUCKET_NAME'')
             ''data/predictions.csv'' = None"
    by (simp add: demo_env_def)
  have k: "''data/predictions.csv'' = (case Some ''data/predictions.csv'' of
             None \<Rightarrow> path_name ''/tmp/predictions.csv'' | Some k \<Rightarrow> k)"
    by simp
  have h: "fst (persist_predictions demo_env demo_result demo_state) = Inr True"
    by (simp only: persist_predictions_run [OF w] upload_run_ok [OF f c u k] fst_conv)
  note inst = persist_returns_upload_outcome [OF w, of demo_state]
  from inst have m: "fst (main_report demo_env demo_result demo_state) = Inr ()"
    by (rule conjunct2)
  from inst [THEN conjunct1] obtain uploaded s' evs where
    a: "persist_predictions demo_env demo_result demo_state = (Inr uploaded, s')"
    and b: "upload_file_to_s3 demo_env ''/tmp/predictions.csv''
         (getenv demo_env ''S3_BUCKET_NAME'') (Some ''data/predictions.csv'')
         (getenv demo_env ''S3_ENDPOINT_URL'') (getenv demo_env ''AWS_ACCESS_KEY_ID'')
         (getenv demo_env ''AWS_SECRET_ACCESS_KEY'')
         (getenv_default demo_env ''AWS_DEFAULT_REGION'' ''us-east-1'') ?s1 = (Inr uploaded, s')"
    and t: "trace s' = trace demo_state @ ToCsv ''/tmp/predictions.csv'' # evs"
    and p: "list_all (\<lambda>ev. is_print ev \<or> is_client ev
         \<or> ev = UploadFile ''/tmp/predictions.csv'' (getenv demo_env ''S3_BUCKET_NAME'')
                  ''data/predictions.csv'') evs"
    and r: "uploaded \<longrightarrow>
         UploadFile ''/tmp/predictions.csv'' (getenv demo_env ''S3_BUCKET_NAME'')
           ''data/predictions.csv'' \<in> set evs"
    by blast
  from h a have "uploaded" by simp
  with r have e: "UploadFile ''/tmp/predictions.csv'' (getenv demo_env ''S3_BUCKET_NAME'')
           ''data/predictions.csv'' \<in> set evs" by simp
  from a b t p e have "\<exists>uploaded s' evs.
       persist_predictions demo_env demo_result demo_state = (Inr uploaded, s')
     \<and> upload_file_to_s3 demo_env ''/tmp/predictions.csv''
         (getenv demo_env ''S3_BUCKET_NAME'') (Some ''data/predictions.csv'')
         (getenv demo_env ''S3_ENDPOINT_URL'') (getenv demo_env ''AWS_ACCESS_KEY_ID'')
         (getenv demo_env ''AWS_SECRET_ACCESS_KEY'')
         (getenv_default demo_env ''AWS_DEFAULT_REGION'' ''us-east-1'') ?s1 = (Inr uploaded, s')
     \<and> trace s' = trace demo_state @ ToCsv ''/tmp/predictions.csv'' # evs
     \<and> list_all (\<lambda>ev. is_print ev \<or> is_client ev
           \<or> ev = UploadFile ''/tmp/predictions.csv'' (getenv demo_env ''S3_BUCKET_NAME'')
                    ''data/predictions.csv'') evs
     \<and> UploadFile ''/tmp/predictions.csv'' (getenv demo_env ''S3_BUCKET_NAME'')
             ''data/predictions.csv'' \<in> set evs"
    by blast
  with w h m show ?thesis by (intro conjI)
qed

lemma demo_run:
  assumes env: "s3_client E = s3_client demo_env" "s3_head_object E = s3_head_object demo_env"
    "mkdir E = mkdir demo_env" "s3_download_file E = s3_download_file demo_env"
    "read_csv E = read_csv demo_env" "load_model E = load_model demo_env"
    "model_predict E = model_predict demo_env" "to_csv_failure E = to_csv_failure demo_env"
    "environ E = environ demo_env"
  shows "fst (main E demo_state) = Inr ()"
proof -
  have g: "getenv E = getenv demo_env" "getenv_default E = getenv_default demo_env"
    using env(9) by (auto simp: getenv_def getenv_default_def fun_eq_iff)
  have c: "s3_client E (getenv E ''S3_ENDPOINT_URL'') (getenv E ''AWS_ACCESS_KEY_ID'')
             (getenv E ''AWS_SECRET_ACCESS_KEY'')
             (getenv_default E ''AWS_DEFAULT_REGION'' ''us-east-1'') = None"
    by (simp add: env demo_env_def)
  have h: "s3_head_object E (getenv E ''S3_BUCKET_NAME'') (getenv E ''S3_OBJECT_KEY'') = Inr 38"
    by (simp add: env demo_env_def)
  have m: "mkdir E ''/tmp/test.csv'' = None"
    by (simp add: env demo_env_def)
  have d: "s3_download_file E (getenv E ''S3_BUCKET_NAME'') (getenv E ''S3_OBJECT_KEY'')
             ''/tmp/test.csv'' = Inr ''PassengerId,Feature1;1,0.5;2,1.2;3,0.9''"
    by (simp add: env demo_env_def)
  note run = main_download_run_ok [OF c h m d, of demo_state]
  have r: "read_csv E ''PassengerId,Feature1;1,0.5;2,1.2;3,0.9'' = Inr demo_table"
    by (simp add: env demo_env_def)
  have l: "load_model E (getenv E ''MLFLOW_LOGGED_MODEL'') = Inr 7"
    by (simp add: env demo_env_def)
  have p: "model_predict E 7 demo_table = Inr (Sequence [IntCell 0, IntCell 1, IntCell 0])"
    by (simp add: env demo_env_def)
  have t: "preds_df demo_table (Sequence [IntCell 0, IntCell 1, IntCell 0]) = Inr demo_result"
    by (simp add: preds_df_def getitem_def demo_table_def DataFrame_def demo_result_def)
  have w: "to_csv_failure E demo_result ''/tmp/predictions.csv'' = None"
    by (simp add: env demo_env_def)
  show ?thesis
    by (rule main_run_ok [OF run _ r l p t w]) simp
qed

text \<open>
  C9, as the spec states it, fails. In the sample world the upload succeeds and the
  persist step returns \<open>True\<close>; with a bucket that does not exist it returns \<open>False\<close>;
  the two runs of the script end alike, returning nothing. And on a full disk the
  persist step raises before any upload.
\<close>

theorem persist_outcome_counterexample:
  "fst (persist_predictions demo_env demo_result demo_state) = Inr True
   \<and> fst (persist_predictions no_bucket_env demo_result demo_state) = Inr False
   \<and> fst (main demo_env demo_state) = Inr ()
   \<and> fst (main no_bucket_env demo_state) = Inr ()
   \<and> fst (persist_predictions full_disk_env demo_result demo_state)
       = Inl (Exception ''No space left on device'')"
proof -
  let ?p = "''/tmp/predictions.csv''"
  have a: "fst (persist_predictions demo_env demo_result demo_state) = Inr True"
  proof -
    let ?s1 = "demo_state\<lparr>trace := trace demo_state @ [ToCsv ?p],
          files := (files demo_state)(?p \<mapsto> to_csv demo_env demo_result)\<rparr>"
    have w: "to_csv_failure demo_env demo_result ?p = None"
      by (simp add: demo_env_def)
    have f: "files ?s1 ?p = Some (to_csv demo_env demo_result)"
      by simp
    have c: "s3_client demo_env (getenv demo_env ''S3_ENDPOINT_URL'')
             (getenv demo_env ''AWS_ACCESS_KEY_ID'') (getenv demo_env ''AWS_SECRET_ACCESS_KEY'')
             (getenv_default demo_env ''AWS_DEFAULT_REGION'' ''us-east-1'') = None"
      by (simp add: demo_env_def)
    have u: "s3_upload_file demo_env ?p (getenv demo_env ''S3_BUCKET_NAME'')
             ''data/predictions.csv'' = None"
      by (simp add: demo_env_def)
    have k: "''data/predictions.csv'' = (case Some ''data/predictions.csv'' of
             None \<Rightarrow> path_name ?p | Some k \<Rightarrow> k)"
      by simp
    show ?thesis
      by (simp only: persist_predictions_run [OF w] upload_run_ok [OF f c u k] fst_conv)
  qed
  have b: "fst (persist_predictions no_bucket_env demo_result demo_state) = Inr False"
  proof -
    let ?s1 = "demo_state\<lparr>trace := trace demo_state @ [ToCsv ?p],
          files := (files demo_state)(?p \<mapsto> to_csv no_bucket_env demo_result)\<rparr>"
    have w: "to_csv_failure no_bucket_env demo_result ?p = None"
      by (simp add: no_bucket_env_def demo_env_def)
    have f: "files ?s1 ?p = Some (to_csv no_bucket_env demo_result)"
      by simp
    have c: "s3_client no_bucket_env (getenv no_bucket_env ''S3_ENDPOINT_URL'')
             (getenv no_bucket_env ''AWS_ACCESS_KEY_ID'')
             (getenv no_bucket_env ''AWS_SECRET_ACCESS_KEY'')
             (getenv_default no_bucket_env ''AWS_DEFAULT_REGION'' ''us-east-1'') = None"
      by (simp add: no_bucket_env_def demo_env_def)
    have u: "s3_upload_file no_bucket_env ?p (getenv no_bucket_env ''S3_BUCKET_NAME'')
             ''data/predictions.csv''
           = Some (ClientError ''NoSuchBucket'' ''The bucket does not exist'')"
      by (simp add: no_bucket_env_def)
    have k: "''data/predictions.csv'' = (case Some ''data/predictions.csv'' of
             None \<Rightarrow> path_name ?p | Some k \<Rightarrow> k)"
      by simp
    show ?thesis
      by (simp only: persist_predictions_run [OF w]
          upload_run_fails [OF f k upload_body_transfer_fails [OF c f u]])
  qed
  have c: "fst (main demo_env demo_state) = Inr ()"
    by (rule demo_run) simp_all
  have d: "fst (main no_bucket_env demo_state) = Inr ()"
    by (rule demo_run) (simp_all add: no_bucket_env_def)
  have e: "fst (persist_predictions full_disk_env demo_result demo_state)
       = Inl (Exception ''No space left on device'')"
  proof -
    have "to_csv_failure full_disk_env demo_result ?p
          = Some (Exception ''No space left on device'', Some ''PassengerId,predictions;1,0'')"
      by (simp add: full_disk_env_def)
    from persist_predictions_write_fails [OF this, of demo_state] show ?thesis
      by simp
  qed
  from a b c d e show ?thesis by (intro conjI)
qed




end
